theory Spec2Isabelle
  imports Complex_Main "HOL-Library.Sublist"
begin

section \<open>Numbers, tiers and findings\<close>

text \<open>
  The auditor computes with JavaScript numbers. They are modelled as exact rationals:
  every count, score and weight of the program is an integer or a half-integer, which a
  double represents exactly; quotients such as \<open>ssrPages / pages.length\<close> are taken
  exactly here, where the program rounds them to the nearest double. \<open>NaN\<close> and the
  infinities have no counterpart: the auditor could reach them only by dividing by zero,
  and each of its divisions stands here under the guard that the source puts before it
  (a date that does not parse is \<open>None\<close>, see \<open>parseDate\<close> below).
\<close>

type_synonym number = rat

text \<open>\<open>Math.round\<close>: the nearest integer, a tie going towards plus infinity.\<close>

definition Math_round :: "number \<Rightarrow> number" where
  "Math_round x = of_int \<lfloor>x + 1 / 2\<rfloor>"

datatype category = Critical | High | Medium | Low

datatype status = Pass | Partial | Fail | NotApplicable

record AuditItem =
  name :: string
  category :: category
  score :: number
  maxScore :: number
  status :: status
  details :: string
  recommendation :: string

record tally =
  passed :: nat
  total :: nat

record tier_summary =
  critical :: tally
  high :: tally
  medium :: tally
  low :: tally

record AuditResult =
  overallScore :: number
  maxPossibleScore :: number
  grade :: string
  items :: "AuditItem list"
  summary :: tier_summary

section \<open>Strings\<close>

text \<open>
  A JavaScript string is a sequence of UTF-16 code units. The model takes \<open>string\<close>, so
  the code units below 256, read as Latin-1: the texts the auditor searches for are ASCII,
  and the line separators U+2028 and U+2029 and the white space beyond U+00A0 lie
  outside the model.
\<close>

definition LF :: char where "LF = CHR 0x0A"
definition CR :: char where "CR = CHR 0x0D"

text \<open>White space as \<open>String.prototype.trim\<close> and the class \<open>\s\<close> see it.\<close>

definition is_whitespace :: "char \<Rightarrow> bool" where
  "is_whitespace c = (of_char c \<in> {9, 10, 11, 12, 13, 32, 160 :: nat})"

text \<open>The characters that \<open>.\<close> does not match and after which \<open>^\<close> matches under flag \<open>m\<close>.\<close>

definition is_line_terminator :: "char \<Rightarrow> bool" where
  "is_line_terminator c = (c = LF \<or> c = CR)"

definition trim :: "string \<Rightarrow> string" where
  "trim s = rev (dropWhile is_whitespace (rev (dropWhile is_whitespace s)))"

definition toLowerCase_char :: "char \<Rightarrow> char" where
  "toLowerCase_char c =
     (let n = (of_char c :: nat)
      in if (65 \<le> n \<and> n \<le> 90) \<or> (192 \<le> n \<and> n \<le> 222 \<and> n \<noteq> 215)
         then char_of (n + 32) else c)"

definition toLowerCase :: "string \<Rightarrow> string" where
  "toLowerCase s = map toLowerCase_char s"

text \<open>
  A literal ASCII text at the start of the subject under flag \<open>i\<close>: the pattern here is
  given in lower case, and only the two ASCII cases of a letter match it.
\<close>

definition starts_with_ci :: "string \<Rightarrow> string \<Rightarrow> bool" where
  "starts_with_ci pat s = (toLowerCase (take (length pat) s) = pat)"

text \<open>\<open>s.split('\n')\<close>: never empty, one more piece than there are line feeds.\<close>

fun split_lines :: "string \<Rightarrow> string list" where
  "split_lines [] = [[]]"
| "split_lines (c # cs) =
     (if c = LF then [] # split_lines cs
      else (case split_lines cs of
              line # rest \<Rightarrow> (c # line) # rest
            | [] \<Rightarrow> [[c]]))"

text \<open>
  A parameter of the source that bears the name of a record field (\<open>content\<close>,
  \<open>robotsTxt\<close>, \<open>aiTxt\<close>) is bound by a \<open>\<lambda>\<close> below, so that it keeps its name.
\<close>

text \<open>\<open>s.includes(sub)\<close>\<close>

fun str_includes :: "string \<Rightarrow> string \<Rightarrow> bool" where
  "str_includes [] sub = (sub = [])"
| "str_includes (c # cs) sub = (prefix sub (c # cs) \<or> str_includes cs sub)"

text \<open>
  \<open>(s.match(/<loc>/g) || []).length\<close>: the matches are taken from left to right, each
  search resuming behind the previous match.
\<close>

function count_loc :: "string \<Rightarrow> nat" where
  "count_loc [] = 0"
| "count_loc (c # cs) =
     (if prefix ''<loc>'' (c # cs) then 1 + count_loc (drop 5 (c # cs)) else count_loc cs)"
  by pat_completeness auto
termination
  by (relation "measure length") auto

text \<open>A pattern anchored by \<open>^\<close> under flag \<open>m\<close>: tried at the start and behind every line terminator.\<close>

fun after_terminator :: "(string \<Rightarrow> bool) \<Rightarrow> string \<Rightarrow> bool" where
  "after_terminator P [] = False"
| "after_terminator P (c # cs) = ((is_line_terminator c \<and> P cs) \<or> after_terminator P cs)"

definition at_line_start :: "(string \<Rightarrow> bool) \<Rightarrow> string \<Rightarrow> bool" where
  "at_line_start P s = (P s \<or> after_terminator P s)"

text \<open>An unanchored pattern: tried at every position.\<close>

fun anywhere :: "(string \<Rightarrow> bool) \<Rightarrow> string \<Rightarrow> bool" where
  "anywhere P [] = P []"
| "anywhere P (c # cs) = (P (c # cs) \<or> anywhere P cs)"

text \<open>\<open>.+\<close> followed by the rest \<open>k\<close> of the pattern: one character or more, none a line terminator.\<close>

fun dot_plus :: "(string \<Rightarrow> bool) \<Rightarrow> string \<Rightarrow> bool" where
  "dot_plus k [] = False"
| "dot_plus k (c # cs) = (\<not> is_line_terminator c \<and> (k cs \<or> dot_plus k cs))"

text \<open>The patterns \<open># .+\<close>, \<open>> .+\<close> and \<open>## .+\<close> at a given position.\<close>

definition marker_then_text :: "string \<Rightarrow> string \<Rightarrow> bool" where
  "marker_then_text mark s = (prefix mark s \<and> dot_plus (\<lambda>_. True) (drop (length mark) s))"

text \<open>The pattern \<open>\[.+\]\(.+\)\<close> at a given position.\<close>

definition link_here :: "string \<Rightarrow> bool" where
  "link_here s =
     (prefix ''['' s \<and>
      dot_plus (\<lambda>t. prefix '']('' t \<and> dot_plus (\<lambda>u. prefix '')'' u) (drop 2 t))
        (drop 1 s))"

text \<open>\<open>xs.join(sep)\<close>\<close>

fun join :: "string \<Rightarrow> string list \<Rightarrow> string" where
  "join sep [] = []"
| "join sep [x] = x"
| "join sep (x # y # ys) = x @ sep @ join sep (y # ys)"

text \<open>A non-negative integer in a template literal.\<close>

definition digit_char :: "nat \<Rightarrow> char" where
  "digit_char d = char_of (48 + d)"

function show_nat :: "nat \<Rightarrow> string" where
  "show_nat n = (if n < 10 then [digit_char n] else show_nat (n div 10) @ [digit_char (n mod 10)])"
  by pat_completeness auto
termination
  by (relation "measure id") auto

text \<open>The truth value of a \<open>string | null\<close>: \<open>null\<close> and the empty text are false.\<close>

definition truthy :: "string option \<Rightarrow> bool" where
  "truthy v = (case v of None \<Rightarrow> False | Some s \<Rightarrow> s \<noteq> [])"

text \<open>
  Two characters of the source texts that a string literal here cannot hold: the double
  quote, and the em dash (U+2014), which lies outside Latin-1 and is written as two hyphens.
\<close>

definition dquote :: string where "dquote = [CHR 0x22]"
definition em_dash :: string where "em_dash = ''--''"

text \<open>\<open>for (const x of xs) { if (P(x)) n++ }\<close>\<close>

primrec count_where :: "('a \<Rightarrow> bool) \<Rightarrow> 'a list \<Rightarrow> nat" where
  "count_where P [] = 0"
| "count_where P (x # xs) = (if P x then 1 else 0) + count_where P xs"

text \<open>\<open>Set.prototype.add\<close> on a set kept in insertion order, and \<open>[...new Set(xs)]\<close>.\<close>

definition set_add :: "string list \<Rightarrow> string \<Rightarrow> string list" where
  "set_add xs x = (if x \<in> set xs then xs else xs @ [x])"

definition unique :: "string list \<Rightarrow> string list" where
  "unique xs = foldl set_add [] xs"

section \<open>The crawl result (page-data.ts)\<close>

text \<open>
  Of each record only the fields that the auditor reads are kept. A property of a JSON-LD
  item has the type \<open>unknown\<close> in the source; the auditor casts \<open>@type\<close> to a string and
  tests the two dates for truth only, so the three are optional texts here.
\<close>

record HeadingNode =
  level :: int
  heading_text :: string

record FAQItem =
  question :: string
  answer :: string

record PageMeta =
  description :: string
  canonical :: "string option"
  ogTitle :: "string option"
  ogDescription :: "string option"
  publishedDate :: "string option"
  modifiedDate :: "string option"
  robots :: "string option"
  googleVerification :: "string option"
  bingVerification :: "string option"

record PageContent =
  headings :: "HeadingNode list"
  wordCount :: int
  faqItems :: "FAQItem list"

record JsonLdItem =
  at_type :: "string option"
  dateModified :: "string option"
  datePublished :: "string option"

record ExistingStructuredData =
  jsonLd :: "JsonLdItem list"

record PageData =
  meta :: PageMeta
  content :: PageContent
  existingStructuredData :: ExistingStructuredData
  lastModified :: "string option"
  responseHeaders :: "string \<rightharpoonup> string"

record ExistingGeoFiles =
  robotsTxt :: "string option"
  sitemapXml :: "string option"
  llmsTxt :: "string option"
  llmsFullTxt :: "string option"
  aiTxt :: "string option"
  aiJson :: "string option"
  securityTxt :: "string option"
  tdmrepJson :: "string option"
  humansTxt :: "string option"
  manifestJson :: "string option"
  bingSiteAuth :: "string option"

record SiteCrawlResult =
  pages :: "PageData list"
  existingGeoFiles :: ExistingGeoFiles

section \<open>The evaluators (geo-auditor.ts)\<close>

subsection \<open>robots.txt, sitemap.xml, llms.txt\<close>

definition auditRobotsTxt :: "string option \<Rightarrow> AuditItem" where
  "auditRobotsTxt = (\<lambda>content.
     (if \<not> truthy content then
        \<lparr>name = ''robots.txt'', category = Critical, score = 0, maxScore = 100, status = Fail,
         details = ''No robots.txt found'',
         recommendation = ''Add /robots.txt with explicit AI crawler directives (GPTBot, ClaudeBot, PerplexityBot, etc.)''\<rparr>
      else
        let text = the content;
            aiCrawlers = [''GPTBot'', ''ClaudeBot'', ''Google-Extended'', ''PerplexityBot'', ''Applebot-Extended''];
            mentioned = filter (\<lambda>c. str_includes text c) aiCrawlers
        in if length mentioned = 0 then
             \<lparr>name = ''robots.txt'', category = Critical, score = 30, maxScore = 100, status = Partial,
              details = ''robots.txt exists but has no AI crawler directives'',
              recommendation = ''Add explicit directives for AI crawlers: '' @ join '', '' aiCrawlers\<rparr>
           else
             let score = min 100 (30 + (of_nat (length mentioned) / of_nat (length aiCrawlers)) * 70)
             in \<lparr>name = ''robots.txt'', category = Critical, score = Math_round score, maxScore = 100,
                 status = (if length mentioned \<ge> 3 then Pass else Partial),
                 details = ''robots.txt mentions '' @ show_nat (length mentioned) @ ''/''
                   @ show_nat (length aiCrawlers) @ '' key AI crawlers: '' @ join '', '' mentioned,
                 recommendation =
                   (if length mentioned < length aiCrawlers
                    then ''Add directives for: '' @ join '', '' (filter (\<lambda>c. c \<notin> set mentioned) aiCrawlers)
                    else ''robots.txt has comprehensive AI crawler coverage'')\<rparr>))"

definition auditSitemap :: "string option \<Rightarrow> nat \<Rightarrow> AuditItem" where
  "auditSitemap = (\<lambda>content pageCount.
     (if \<not> truthy content then
        \<lparr>name = ''sitemap.xml'', category = Critical, score = 0, maxScore = 100, status = Fail,
         details = ''No sitemap.xml found'',
         recommendation = ''Add /sitemap.xml with all discoverable URLs''\<rparr>
      else
        let text = the content;
            urlCount = count_loc text;
            hasLastmod = str_includes text ''<lastmod>'';
            score = 50 + (if urlCount > 0 then 25 else 0) + (if hasLastmod then 25 else 0)
        in \<lparr>name = ''sitemap.xml'', category = Critical, score = score, maxScore = 100,
            status = (if score \<ge> 75 then Pass else Partial),
            details = ''Sitemap contains '' @ show_nat urlCount @ '' URLs''
              @ (if hasLastmod then '' with lastmod dates'' else '' (no lastmod)'')
              @ ''. Crawled '' @ show_nat pageCount @ '' pages.'',
            recommendation =
              (if \<not> hasLastmod then ''Add <lastmod> dates to sitemap entries for freshness signals''
               else ''Sitemap is well-configured'')\<rparr>))"

definition yes_no :: "bool \<Rightarrow> string" where
  "yes_no b = (if b then ''yes'' else ''no'')"

definition auditLlmsTxt :: "string option \<Rightarrow> AuditItem" where
  "auditLlmsTxt = (\<lambda>content.
     (if \<not> truthy content then
        \<lparr>name = ''llms.txt'', category = Critical, score = 0, maxScore = 100, status = Fail,
         details = ''No llms.txt found'',
         recommendation = ''Add /llms.txt following the llmstxt.org spec: H1 site name, blockquote summary, H2 sections with link lists''\<rparr>
      else
        let text = the content;
            hasH1 = at_line_start (marker_then_text ''# '') text;
            hasBlockquote = at_line_start (marker_then_text ''> '') text;
            hasH2 = at_line_start (marker_then_text ''## '') text;
            hasLinks = anywhere link_here text;
            score = 40 + (if hasH1 then 15 else 0) + (if hasBlockquote then 15 else 0)
                       + (if hasH2 then 15 else 0) + (if hasLinks then 15 else 0)
        in \<lparr>name = ''llms.txt'', category = Critical, score = score, maxScore = 100,
            status = (if score \<ge> 70 then Pass else Partial),
            details = ''llms.txt found '' @ em_dash @ '' H1: '' @ yes_no hasH1
              @ '', Blockquote: '' @ yes_no hasBlockquote
              @ '', H2 sections: '' @ yes_no hasH2 @ '', Links: '' @ yes_no hasLinks,
            recommendation =
              (if score < 100
               then ''Ensure llms.txt has: # Site Name, > summary blockquote, ## Sections with [link](url) lists''
               else ''llms.txt follows the spec correctly'')\<rparr>))"

subsection \<open>Structured data, server-side rendering, AI policy\<close>

text \<open>The three variables of the page loop of \<open>auditStructuredData\<close>.\<close>

record jsonld_state =
  pagesWithJsonLd :: nat
  totalJsonLdItems :: nat
  schemaTypes :: "string list"

definition schema_type_of :: "JsonLdItem \<Rightarrow> string" where
  "schema_type_of item = (if truthy (at_type item) then the (at_type item) else ''unknown'')"

definition jsonld_step :: "jsonld_state \<Rightarrow> PageData \<Rightarrow> jsonld_state" where
  "jsonld_step st page =
     (let lds = jsonLd (existingStructuredData page)
      in if length lds > 0
         then \<lparr>pagesWithJsonLd = pagesWithJsonLd st + 1,
               totalJsonLdItems = totalJsonLdItems st + length lds,
               schemaTypes = foldl (\<lambda>types item. set_add types (schema_type_of item)) (schemaTypes st) lds\<rparr>
         else st)"

definition auditStructuredData :: "SiteCrawlResult \<Rightarrow> AuditItem" where
  "auditStructuredData crawlResult =
     (let pages = pages crawlResult;
          st = foldl jsonld_step \<lparr>pagesWithJsonLd = 0, totalJsonLdItems = 0, schemaTypes = []\<rparr> pages
      in if totalJsonLdItems st = 0 then
           \<lparr>name = ''Structured Data (JSON-LD)'', category = Critical, score = 0, maxScore = 100,
            status = Fail,
            details = ''No JSON-LD structured data found on any page'',
            recommendation = ''Add JSON-LD Schema.org markup: Organization on homepage, Article on blog posts, FAQPage on FAQ sections, Product on product pages''\<rparr>
         else
           let coverage = (if length pages > 0
                           then of_nat (pagesWithJsonLd st) / of_nat (length pages) else 0);
               hasOrganization = (''Organization'' \<in> set (schemaTypes st));
               hasWebSite = (''WebSite'' \<in> set (schemaTypes st));
               score = min 50 (Math_round (coverage * 50))
                         + (if hasOrganization then 20 else 0)
                         + (if hasWebSite then 15 else 0)
                         + (if length (schemaTypes st) \<ge> 3 then 15 else 0)
           in \<lparr>name = ''Structured Data (JSON-LD)'', category = Critical, score = min 100 score,
               maxScore = 100,
               status = (if score \<ge> 60 then Pass else Partial),
               details = show_nat (pagesWithJsonLd st) @ ''/'' @ show_nat (length pages)
                 @ '' pages have JSON-LD ('' @ show_nat (totalJsonLdItems st) @ '' total items). Types: ''
                 @ (if join '', '' (schemaTypes st) \<noteq> [] then join '', '' (schemaTypes st) else ''none''),
               recommendation =
                 (if \<not> hasOrganization
                  then ''Add Organization schema to homepage for entity disambiguation''
                  else if coverage < 1 / 2
                  then ''Increase JSON-LD coverage '' @ em_dash @ '' aim for structured data on every significant page''
                  else ''Good structured data coverage'')\<rparr>)"

text \<open>The ladder \<open>coverage >= 0.8 ? 'pass' : coverage >= 0.5 ? 'partial' : 'fail'\<close>.\<close>

definition coverage_status :: "number \<Rightarrow> status" where
  "coverage_status coverage =
     (if coverage \<ge> 8 / 10 then Pass else if coverage \<ge> 1 / 2 then Partial else Fail)"

definition auditServerRendering :: "SiteCrawlResult \<Rightarrow> AuditItem" where
  "auditServerRendering crawlResult =
     (let pages = pages crawlResult;
          ssrPages = count_where (\<lambda>page. wordCount (content page) > 50) pages;
          coverage = (if length pages > 0 then of_nat ssrPages / of_nat (length pages) else 0);
          score = Math_round (coverage * 100)
      in \<lparr>name = ''Server-side Rendering'', category = Critical, score = score, maxScore = 100,
          status = coverage_status coverage,
          details = show_nat ssrPages @ ''/'' @ show_nat (length pages)
            @ '' pages have server-rendered content (>50 words without JS)'',
          recommendation =
            (if coverage < 8 / 10
             then ''AI crawlers cannot execute JavaScript '' @ em_dash @ '' ensure content is in initial HTML response via SSR/SSG''
             else ''Content renders without JavaScript '' @ em_dash @ '' good!'')\<rparr>)"

definition auditAiPolicy :: "string option \<Rightarrow> string option \<Rightarrow> AuditItem" where
  "auditAiPolicy = (\<lambda>aiTxt aiJson.
     (let hasTxt = truthy aiTxt;
          hasJson = truthy aiJson
      in if \<not> hasTxt \<and> \<not> hasJson then
           \<lparr>name = ''AI Policy (ai.txt / ai.json)'', category = High, score = 0, maxScore = 100,
            status = Fail,
            details = ''No ai.txt or ai.json found'',
            recommendation = ''Add /ai.txt and /ai.json to define AI interaction permissions, restrictions, and attribution requirements''\<rparr>
         else
           let score = (if hasTxt then 50 else 0) + (if hasJson then 50 else 0)
           in \<lparr>name = ''AI Policy (ai.txt / ai.json)'', category = High, score = score, maxScore = 100,
               status = (if hasTxt \<and> hasJson then Pass else Partial),
               details = ''ai.txt: '' @ (if hasTxt then ''found'' else ''missing'')
                 @ '', ai.json: '' @ (if hasJson then ''found'' else ''missing''),
               recommendation =
                 (if \<not> hasTxt then ''Add /ai.txt for human-readable AI policy''
                  else if \<not> hasJson then ''Add /ai.json for machine-parseable AI policy''
                  else ''Both AI policy files are present'')\<rparr>))"

subsection \<open>Meta descriptions, heading hierarchy, Open Graph, AI content directives\<close>

definition auditMetaDescriptions :: "SiteCrawlResult \<Rightarrow> AuditItem" where
  "auditMetaDescriptions crawlResult =
     (let pages = pages crawlResult;
          withDescription = count_where
            (\<lambda>page. description (meta page) \<noteq> [] \<and> length (description (meta page)) \<ge> 30) pages;
          coverage = (if length pages > 0 then of_nat withDescription / of_nat (length pages) else 0);
          score = Math_round (coverage * 100)
      in \<lparr>name = ''Meta Descriptions'', category = High, score = score, maxScore = 100,
          status = coverage_status coverage,
          details = show_nat withDescription @ ''/'' @ show_nat (length pages)
            @ '' pages have meta descriptions (>=30 chars)'',
          recommendation =
            (if coverage < 8 / 10
             then ''Add meaningful meta descriptions to all pages '' @ em_dash @ '' AI engines use these for summaries and citations''
             else ''Good meta description coverage'')\<rparr>)"

text \<open>
  The inner loop \<open>for (let i = 1; i < headings.length; i++)\<close>, which stops at the first
  heading more than one level below its predecessor.
\<close>

fun noSkips :: "HeadingNode list \<Rightarrow> bool" where
  "noSkips (a # b # rest) = (if level b > level a + 1 then False else noSkips (b # rest))"
| "noSkips _ = True"

text \<open>The body of the page loop of \<open>auditHeadingHierarchy\<close>: does this page count as correct?\<close>

definition correct_hierarchy :: "PageData \<Rightarrow> bool" where
  "correct_hierarchy page =
     (let headings = headings (content page)
      in if length headings = 0 then False
         else
           let hasH1 = list_ex (\<lambda>h. level h = 1) headings;
               h1Count = length (filter (\<lambda>h. level h = 1) headings)
           in hasH1 \<and> h1Count = 1 \<and> noSkips headings)"

definition auditHeadingHierarchy :: "SiteCrawlResult \<Rightarrow> AuditItem" where
  "auditHeadingHierarchy crawlResult =
     (let pages = pages crawlResult;
          correctHierarchy = count_where correct_hierarchy pages;
          pagesWithHeadings = length (filter (\<lambda>p. length (headings (content p)) > 0) pages);
          coverage = (if pagesWithHeadings > 0
                      then of_nat correctHierarchy / of_nat pagesWithHeadings else 0);
          score = Math_round (coverage * 100)
      in \<lparr>name = ''Heading Hierarchy'', category = High, score = score, maxScore = 100,
          status = coverage_status coverage,
          details = show_nat correctHierarchy @ ''/'' @ show_nat pagesWithHeadings
            @ '' pages with headings have correct H1>H2>H3 hierarchy'',
          recommendation =
            (if coverage < 8 / 10
             then ''Fix heading hierarchy: single H1, no skipped levels (H1>H2>H3). LLMs use headings to understand content structure.''
             else ''Heading hierarchy is clean'')\<rparr>)"

definition auditOpenGraph :: "SiteCrawlResult \<Rightarrow> AuditItem" where
  "auditOpenGraph crawlResult =
     (let pages = pages crawlResult;
          withOG = count_where
            (\<lambda>page. truthy (ogTitle (meta page)) \<and> truthy (ogDescription (meta page))) pages;
          coverage = (if length pages > 0 then of_nat withOG / of_nat (length pages) else 0);
          score = Math_round (coverage * 100)
      in \<lparr>name = ''Open Graph Tags'', category = Medium, score = score, maxScore = 100,
          status = coverage_status coverage,
          details = show_nat withOG @ ''/'' @ show_nat (length pages)
            @ '' pages have OG title + description'',
          recommendation =
            (if coverage < 8 / 10
             then ''Add og:title and og:description to all pages for rich previews in AI responses''
             else ''Good Open Graph coverage'')\<rparr>)"

text \<open>\<open>page.meta.robots?.toLowerCase() || ''\<close> and \<open>(page.responseHeaders['x-robots-tag'] || '').toLowerCase()\<close>\<close>

definition robots_lower :: "PageData \<Rightarrow> string" where
  "robots_lower page = (case robots (meta page) of None \<Rightarrow> [] | Some r \<Rightarrow> toLowerCase r)"

definition xRobotsTag_lower :: "PageData \<Rightarrow> string" where
  "xRobotsTag_lower page =
     toLowerCase (case responseHeaders page ''x-robots-tag'' of None \<Rightarrow> [] | Some v \<Rightarrow> v)"

definition combined_directives :: "PageData \<Rightarrow> string" where
  "combined_directives page = robots_lower page @ '' '' @ xRobotsTag_lower page"

definition auditAiContentDirectives :: "SiteCrawlResult \<Rightarrow> AuditItem" where
  "auditAiContentDirectives crawlResult =
     (let pages = pages crawlResult;
          withMaxSnippet = count_where
            (\<lambda>page. str_includes (combined_directives page) ''max-snippet'') pages;
          withMaxImagePreview = count_where
            (\<lambda>page. str_includes (combined_directives page) ''max-image-preview'') pages;
          hasDirectives = (withMaxSnippet > 0 \<or> withMaxImagePreview > 0);
          coverage = (if length pages > 0
                      then of_nat (max withMaxSnippet withMaxImagePreview) / of_nat (length pages)
                      else 0);
          score0 = (if withMaxSnippet > 0 then 50 else 0) + (if withMaxImagePreview > 0 then 50 else 0);
          score = Math_round (score0 * max coverage (if hasDirectives then 1 / 2 else 0))
      in \<lparr>name = ''AI Content Directives'', category = Medium, score = score, maxScore = 100,
          status = (if score \<ge> 60 then Pass else if score > 0 then Partial else Fail),
          details =
            (if hasDirectives
             then ''max-snippet on '' @ show_nat withMaxSnippet @ '' pages, max-image-preview on ''
               @ show_nat withMaxImagePreview @ '' pages''
             else ''No max-snippet or max-image-preview directives found''),
          recommendation =
            (if \<not> hasDirectives
             then ''Add <meta name='' @ dquote @ ''robots'' @ dquote @ '' content='' @ dquote
               @ ''max-snippet:-1, max-image-preview:large'' @ dquote
               @ ''> to allow AI engines to use full content in responses''
             else if coverage < 8 / 10
             then ''Increase coverage of max-snippet and max-image-preview across all pages''
             else ''AI content directives are well-configured'')\<rparr>)"

subsection \<open>AI bot blocking: the directive scan\<close>

text \<open>
  \<open>\s*\<close> followed by the rest \<open>k\<close> of a pattern that yields a capture: the longest
  run of white space is tried first, then the shorter ones.
\<close>

fun ws_star :: "(string \<Rightarrow> string option) \<Rightarrow> string \<Rightarrow> string option" where
  "ws_star k [] = k []"
| "ws_star k (c # cs) =
     (if is_whitespace c
      then (case ws_star k cs of Some r \<Rightarrow> Some r | None \<Rightarrow> k (c # cs))
      else k (c # cs))"

text \<open>\<open>(.+)$\<close>: the whole rest, not empty and free of line terminators, is the capture.\<close>

definition rest_of_line :: "string \<Rightarrow> string option" where
  "rest_of_line s =
     (if s \<noteq> [] \<and> list_all (\<lambda>c. \<not> is_line_terminator c) s then Some s else None)"

text \<open>\<open>line.match(/^User-agent:\s*(.+)$/i)\<close>: the first group of the match, if there is one.\<close>

definition agentMatch :: "string \<Rightarrow> string option" where
  "agentMatch line =
     (if starts_with_ci ''user-agent:'' line then ws_star rest_of_line (drop 11 line) else None)"

text \<open>\<open>\s*\/\s*$\<close>: white space, one slash, white space to the end.\<close>

definition slash_only :: "string \<Rightarrow> bool" where
  "slash_only s =
     (case dropWhile is_whitespace s of
        [] \<Rightarrow> False
      | c # rest \<Rightarrow> c = CHR ''/'' \<and> list_all is_whitespace rest)"

text \<open>\<open>/^Disallow:\s*\/\s*$/i\<close> and \<open>/^Allow:\s*\/\s*$/i\<close>\<close>

definition disallowMatch :: "string \<Rightarrow> bool" where
  "disallowMatch line = (starts_with_ci ''disallow:'' line \<and> slash_only (drop 9 line))"

definition allowMatch :: "string \<Rightarrow> bool" where
  "allowMatch line = (starts_with_ci ''allow:'' line \<and> slash_only (drop 6 line))"

text \<open>\<open>!agentMatch && !line.startsWith('#') && line.length > 0\<close>\<close>

definition resets_agents :: "string \<Rightarrow> bool" where
  "resets_agents line = (agentMatch line = None \<and> \<not> prefix ''#'' line \<and> length line > 0)"

text \<open>The loop of \<open>hasExplicitAllow\<close> over the trimmed lines, with its flag \<open>inBotBlock\<close>.\<close>

fun allow_scan :: "string \<Rightarrow> bool \<Rightarrow> string list \<Rightarrow> bool" where
  "allow_scan botName inBotBlock [] = False"
| "allow_scan botName inBotBlock (line # rest) =
     (case agentMatch line of
        Some agent \<Rightarrow> allow_scan botName (toLowerCase (trim agent) = toLowerCase botName) rest
      | None \<Rightarrow>
          if inBotBlock \<and> allowMatch line then True
          else allow_scan botName (if resets_agents line then False else inBotBlock) rest)"

definition hasExplicitAllow :: "string \<Rightarrow> string \<Rightarrow> bool" where
  "hasExplicitAllow = (\<lambda>robotsTxt botName.
     allow_scan botName False (map trim (split_lines robotsTxt)))"

definition aiCrawlers :: "string list" where
  "aiCrawlers =
     [''GPTBot'', ''OAI-SearchBot'', ''ChatGPT-User'', ''ClaudeBot'', ''Claude-SearchBot'',
      ''Google-Extended'', ''Applebot-Extended'', ''Meta-ExternalAgent'', ''PerplexityBot'',
      ''Amazonbot'', ''CCBot'', ''DuckAssistBot'', ''Bytespider'']"

text \<open>The state of the scan: \<open>currentAgents\<close> and \<open>blockedBots\<close>.\<close>

record scan_state =
  currentAgents :: "string list"
  blockedBots :: "string list"

text \<open>The body of \<open>for (const agent of currentAgents)\<close> under a full \<open>Disallow: /\<close>.\<close>

definition block_agent :: "string \<Rightarrow> string list \<Rightarrow> string \<Rightarrow> string list" where
  "block_agent robotsText blocked agent =
     (if agent = ''*''
      then foldl (\<lambda>acc bot. if \<not> hasExplicitAllow robotsText bot then acc @ [bot] else acc)
             blocked aiCrawlers
      else (case find (\<lambda>b. toLowerCase b = toLowerCase agent) aiCrawlers of
              Some matchedBot \<Rightarrow> blocked @ [matchedBot]
            | None \<Rightarrow> blocked))"

text \<open>One pass of \<open>for (const line of lines)\<close>.\<close>

definition scan_step :: "string \<Rightarrow> scan_state \<Rightarrow> string \<Rightarrow> scan_state" where
  "scan_step robotsText st line =
     (case agentMatch line of
        Some agent \<Rightarrow> st\<lparr>currentAgents := currentAgents st @ [trim agent]\<rparr>
      | None \<Rightarrow>
          let blocked = (if disallowMatch line \<and> length (currentAgents st) > 0
                         then foldl (block_agent robotsText) (blockedBots st) (currentAgents st)
                         else blockedBots st);
              agents = (if resets_agents line then [] else currentAgents st)
          in \<lparr>currentAgents = agents, blockedBots = blocked\<rparr>)"

definition scan_lines :: "string \<Rightarrow> string list \<Rightarrow> scan_state" where
  "scan_lines robotsText lines = foldl (scan_step robotsText) \<lparr>currentAgents = [], blockedBots = []\<rparr> lines"

definition uniqueBlocked :: "string \<Rightarrow> string list" where
  "uniqueBlocked robotsText = unique (blockedBots (scan_lines robotsText (map trim (split_lines robotsText))))"

definition auditAiBotBlocking :: "string option \<Rightarrow> AuditItem" where
  "auditAiBotBlocking = (\<lambda>content.
     (if \<not> truthy content then
        \<lparr>name = ''AI Bot Blocking'', category = Critical, score = 100, maxScore = 100, status = Pass,
         details = ''No robots.txt found '' @ em_dash @ '' AI bots are not blocked (but consider adding one with explicit Allow directives)'',
         recommendation = ''Add /robots.txt with explicit '' @ dquote @ ''Allow: /'' @ dquote
           @ '' for AI crawlers to signal openness''\<rparr>
      else
        let uniqueBlocked = uniqueBlocked (the content)
        in if length uniqueBlocked = 0 then
             \<lparr>name = ''AI Bot Blocking'', category = Critical, score = 100, maxScore = 100,
              status = Pass,
              details = ''No AI crawlers are blocked in robots.txt'',
              recommendation = ''robots.txt does not block AI crawlers '' @ em_dash @ '' good!''\<rparr>
           else
             let blockedPct = of_nat (length uniqueBlocked) / of_nat (length aiCrawlers);
                 score = Math_round (max 0 ((1 - blockedPct) * 100))
             in \<lparr>name = ''AI Bot Blocking'', category = Critical, score = score, maxScore = 100,
                 status = (if blockedPct > 1 / 2 then Fail else Partial),
                 details = show_nat (length uniqueBlocked) @ ''/'' @ show_nat (length aiCrawlers)
                   @ '' AI crawlers are blocked: '' @ join '', '' uniqueBlocked,
                 recommendation = ''Remove '' @ dquote @ ''Disallow: /'' @ dquote
                   @ '' for these AI crawlers to allow indexing: '' @ join '', '' uniqueBlocked
                   @ ''. 5.9% of sites accidentally block GPTBot.''\<rparr>))"

subsection \<open>Content freshness, content structure and depth\<close>

text \<open>
  \<open>auditContentFreshness\<close> reads the clock (\<open>Date.now()\<close>) and parses dates
  (\<open>new Date(dateStr).getTime()\<close>). Both come from the JavaScript runtime, so they are
  parameters here: \<open>now\<close> in milliseconds, and \<open>parseDate\<close>, which yields \<open>None\<close> where
  \<open>getTime()\<close> yields \<open>NaN\<close>.
\<close>

text \<open>\<open>a || b\<close> on two values of type \<open>string | null\<close>\<close>

definition or_else :: "string option \<Rightarrow> string option \<Rightarrow> string option" where
  "or_else a b = (if truthy a then a else b)"

definition twelveMonthsMs :: int where
  "twelveMonthsMs = 365 * 24 * 60 * 60 * 1000"

record freshness_state =
  pagesWithDate :: nat
  pagesRecent :: nat
  pagesWithJsonLdDate :: nat

definition freshness_step ::
  "int \<Rightarrow> (string \<Rightarrow> int option) \<Rightarrow> freshness_state \<Rightarrow> PageData \<Rightarrow> freshness_state" where
  "freshness_step now parseDate st page =
     (let dateStr = or_else (or_else (modifiedDate (meta page)) (publishedDate (meta page)))
                      (lastModified page);
          st1 = (if truthy dateStr
                 then (case parseDate (the dateStr) of
                         Some ts \<Rightarrow>
                           if now - ts < twelveMonthsMs
                           then st\<lparr>pagesWithDate := pagesWithDate st + 1,
                                   pagesRecent := pagesRecent st + 1\<rparr>
                           else st\<lparr>pagesWithDate := pagesWithDate st + 1\<rparr>
                       | None \<Rightarrow> st\<lparr>pagesWithDate := pagesWithDate st + 1\<rparr>)
                 else st)
      in if list_ex (\<lambda>ld. truthy (dateModified ld) \<or> truthy (datePublished ld))
              (jsonLd (existingStructuredData page))
         then st1\<lparr>pagesWithJsonLdDate := pagesWithJsonLdDate st1 + 1\<rparr>
         else st1)"

text \<open>The ladder \<open>score >= 60 ? 'pass' : score > 0 ? 'partial' : 'fail'\<close>.\<close>

definition score_status :: "number \<Rightarrow> status" where
  "score_status s = (if s \<ge> 60 then Pass else if s > 0 then Partial else Fail)"

definition auditContentFreshness ::
  "int \<Rightarrow> (string \<Rightarrow> int option) \<Rightarrow> SiteCrawlResult \<Rightarrow> AuditItem" where
  "auditContentFreshness now parseDate crawlResult =
     (let pages = pages crawlResult
      in if length pages = 0 then
           \<lparr>name = ''Content Freshness'', category = High, score = 0, maxScore = 100,
            status = NotApplicable,
            details = ''No pages crawled'',
            recommendation = ''Crawl pages to assess content freshness''\<rparr>
         else
           let st = foldl (freshness_step now parseDate)
                      \<lparr>pagesWithDate = 0, pagesRecent = 0, pagesWithJsonLdDate = 0\<rparr> pages;
               dateCoverage = of_nat (pagesWithDate st) / of_nat (length pages);
               recencyRatio = (if pagesWithDate st > 0
                               then of_nat (pagesRecent st) / of_nat (pagesWithDate st) else 0);
               jsonLdDateRatio = (if length pages > 0
                                  then of_nat (pagesWithJsonLdDate st) / of_nat (length pages) else 0);
               score = min 100 (Math_round (dateCoverage * 50 + recencyRatio * 30 + jsonLdDateRatio * 20))
           in \<lparr>name = ''Content Freshness'', category = High, score = score, maxScore = 100,
               status = score_status score,
               details = show_nat (pagesWithDate st) @ ''/'' @ show_nat (length pages)
                 @ '' pages have date signals, '' @ show_nat (pagesRecent st)
                 @ '' updated within 12 months, '' @ show_nat (pagesWithJsonLdDate st)
                 @ '' with JSON-LD dates'',
               recommendation =
                 (if score < 60
                  then ''Add dateModified to JSON-LD and keep content updated '' @ em_dash @ '' AI-cited content is 25.7% fresher than traditional results''
                  else ''Content freshness signals are strong'')\<rparr>)"

record depth_state =
  thinPages :: nat
  substantivePages :: nat
  wellStructured :: nat

definition depth_step :: "depth_state \<Rightarrow> PageData \<Rightarrow> depth_state" where
  "depth_step st page =
     (let words = wordCount (content page);
          headingCount = length (headings (content page));
          st1 = (if words < 300 then st\<lparr>thinPages := thinPages st + 1\<rparr> else st)
      in if words > 500
         then (if headingCount \<ge> 3
               then st1\<lparr>substantivePages := substantivePages st1 + 1,
                        wellStructured := wellStructured st1 + 1\<rparr>
               else st1\<lparr>substantivePages := substantivePages st1 + 1\<rparr>)
         else st1)"

definition auditContentDepth :: "SiteCrawlResult \<Rightarrow> AuditItem" where
  "auditContentDepth crawlResult =
     (let pages = pages crawlResult
      in if length pages = 0 then
           \<lparr>name = ''Content Structure & Depth'', category = High, score = 0, maxScore = 100,
            status = NotApplicable,
            details = ''No pages crawled'',
            recommendation = ''Crawl pages to assess content depth''\<rparr>
         else
           let st = foldl depth_step \<lparr>thinPages = 0, substantivePages = 0, wellStructured = 0\<rparr> pages;
               thinRatio = of_nat (thinPages st) / of_nat (length pages);
               depthRatio = of_nat (substantivePages st) / of_nat (length pages);
               structureRatio = (if substantivePages st > 0
                                 then of_nat (wellStructured st) / of_nat (substantivePages st) else 0);
               score = min 100 (Math_round ((1 - thinRatio) * 30 + depthRatio * 40 + structureRatio * 30))
           in \<lparr>name = ''Content Structure & Depth'', category = High, score = score, maxScore = 100,
               status = score_status score,
               details = show_nat (substantivePages st) @ ''/'' @ show_nat (length pages)
                 @ '' pages >500 words, '' @ show_nat (wellStructured st)
                 @ '' well-structured (>=3 headings), '' @ show_nat (thinPages st)
                 @ '' thin pages (<300 words)'',
               recommendation =
                 (if score < 60
                  then ''Add more substantive content (>500 words) with clear heading structure (>=3 headings). AI engines chunk content by paragraphs under headings.''
                  else ''Content depth and structure are solid'')\<rparr>)"

subsection \<open>Search engine indexing, FAQ content\<close>

definition auditSearchIndexing :: "SiteCrawlResult \<Rightarrow> AuditItem" where
  "auditSearchIndexing crawlResult =
     (let pages = pages crawlResult;
          existingGeoFiles = existingGeoFiles crawlResult;
          hasGoogleVerification = list_ex (\<lambda>p. truthy (googleVerification (meta p))) pages;
          score1 = (if hasGoogleVerification then 20 else 0);
          signals1 = (if hasGoogleVerification then [''Google Search Console verification''] else []);
          missing1 = (if hasGoogleVerification then [] else [''Google Search Console verification tag'']);
          hasBingMetaTag = list_ex (\<lambda>p. truthy (bingVerification (meta p))) pages;
          hasBingSiteAuth = truthy (bingSiteAuth existingGeoFiles);
          method = (if hasBingMetaTag \<and> hasBingSiteAuth then ''meta tag + BingSiteAuth.xml''
                    else if hasBingMetaTag then ''meta tag'' else ''BingSiteAuth.xml'');
          score2 = score1 + (if hasBingMetaTag \<or> hasBingSiteAuth then 20 else 0);
          signals2 = (if hasBingMetaTag \<or> hasBingSiteAuth
                      then signals1 @ [''Bing Webmaster Tools verification ('' @ method @ '')'']
                      else signals1);
          missing2 = (if hasBingMetaTag \<or> hasBingSiteAuth then missing1
                      else missing1 @ [''Bing Webmaster Tools verification (meta tag or BingSiteAuth.xml)'']);
          robotsTxt = (if truthy (robotsTxt existingGeoFiles) then the (robotsTxt existingGeoFiles) else []);
          hasSitemapInRobots = at_line_start (starts_with_ci ''sitemap:'') robotsTxt;
          score3 = score2 + (if hasSitemapInRobots then 20 else 0);
          signals3 = (if hasSitemapInRobots then signals2 @ [''Sitemap in robots.txt''] else signals2);
          missing3 = (if hasSitemapInRobots then missing2 else missing2 @ [''Sitemap directive in robots.txt'']);
          noindexPages = filter
            (\<lambda>p. str_includes (robots_lower p) ''noindex'' \<or> str_includes (xRobotsTag_lower p) ''noindex'')
            pages;
          score4 = score3 + (if length noindexPages = 0 then 20 else 0);
          signals4 = (if length noindexPages = 0 then signals3 @ [''No noindex pages''] else signals3);
          missing4 = (if length noindexPages = 0 then missing3
                      else missing3 @ [show_nat (length noindexPages) @ '' page(s) with noindex'']);
          pagesWithCanonical = filter (\<lambda>p. truthy (canonical (meta p))) pages;
          canonicalCoverage = (if length pages > 0
                               then of_nat (length pagesWithCanonical) / of_nat (length pages) else 0);
          score = score4 + (if canonicalCoverage \<ge> 8 / 10 then 20
                            else if canonicalCoverage > 0 then Math_round (20 * canonicalCoverage)
                            else 0);
          signals = (if canonicalCoverage \<ge> 8 / 10
                     then signals4 @ [''Canonical URLs set ('' @ show_nat (length pagesWithCanonical)
                            @ ''/'' @ show_nat (length pages) @ '' pages)'']
                     else signals4);
          missing = (if canonicalCoverage \<ge> 8 / 10 then missing4
                     else if canonicalCoverage > 0
                     then missing4 @ [''Canonical URLs on only '' @ show_nat (length pagesWithCanonical)
                            @ ''/'' @ show_nat (length pages) @ '' pages'']
                     else missing4 @ [''No canonical URLs set'']);
          details = (if length signals > 0
                     then ''Indexing signals found: '' @ join '', '' signals
                       @ (if length missing > 0 then ''. Missing: '' @ join '', '' missing else [])
                     else ''No indexing signals found. Missing: '' @ join '', '' missing);
          recommendation =
            (if score = 100
             then ''All search engine indexing signals are present '' @ em_dash @ '' your site is well-configured for discovery''
             else if score \<ge> 50
             then ''Partial indexing setup. Add missing signals: '' @ join '', '' missing
             else ''Your site is likely not indexed by search engines. Set up Google Search Console and Bing Webmaster Tools, add a Sitemap directive to robots.txt, set canonical URLs, and remove any noindex tags'')
      in \<lparr>name = ''Search Engine Indexing'', category = Critical, score = score, maxScore = 100,
          status = (if score = 100 then Pass else if score \<ge> 50 then Partial else Fail),
          details = details, recommendation = recommendation\<rparr>)"

record faq_state =
  totalFAQs :: nat
  pagesWithFAQ :: nat
  hasFAQPageSchema :: bool

definition faq_step :: "faq_state \<Rightarrow> PageData \<Rightarrow> faq_state" where
  "faq_step st page =
     (let faqCount = length (faqItems (content page));
          st1 = (if faqCount > 0
                 then st\<lparr>totalFAQs := totalFAQs st + faqCount, pagesWithFAQ := pagesWithFAQ st + 1\<rparr>
                 else st)
      in if list_ex (\<lambda>item. at_type item = Some ''FAQPage'') (jsonLd (existingStructuredData page))
         then st1\<lparr>hasFAQPageSchema := True\<rparr>
         else st1)"

definition auditFAQContent :: "SiteCrawlResult \<Rightarrow> AuditItem" where
  "auditFAQContent crawlResult =
     (let pages = pages crawlResult;
          st = foldl faq_step \<lparr>totalFAQs = 0, pagesWithFAQ = 0, hasFAQPageSchema = False\<rparr> pages
      in if totalFAQs st = 0 then
           \<lparr>name = ''FAQ Content'', category = Low, score = 0, maxScore = 100, status = Fail,
            details = ''No FAQ content detected on any page'',
            recommendation = ''Add FAQ sections to high-traffic pages. FAQPage schema has the highest AI citation probability.''\<rparr>
         else
           let score0 = min 60 (of_nat (totalFAQs st) * 15)
                          + (if hasFAQPageSchema st then 40 else 0);
               score = min 100 score0;
               schemaNote = (if hasFAQPageSchema st then '' with FAQPage schema'' else '' (no FAQPage schema)'')
           in \<lparr>name = ''FAQ Content'', category = Low, score = score, maxScore = 100,
               status = (if score \<ge> 60 then Pass else Partial),
               details = show_nat (totalFAQs st) @ '' FAQ items on '' @ show_nat (pagesWithFAQ st)
                 @ '' pages'' @ schemaNote,
               recommendation =
                 (if \<not> hasFAQPageSchema st
                  then ''Add FAQPage JSON-LD schema markup alongside FAQ content for maximum AI citation rates''
                  else if totalFAQs st < 5
                  then ''Add more FAQ content to additional high-traffic pages''
                  else ''FAQ content with schema markup detected '' @ em_dash @ '' good!'')\<rparr>)"

subsection \<open>The presence checks written inline in \<open>auditSite\<close>\<close>

definition llmsFullTxt_item :: "string option \<Rightarrow> AuditItem" where
  "llmsFullTxt_item file =
     \<lparr>name = ''llms-full.txt'', category = High,
      score = (if truthy file then 100 else 0), maxScore = 100,
      status = (if truthy file then Pass else Fail),
      details = (if truthy file
                 then ''Found llms-full.txt ('' @ show_nat (length (the file)) @ '' chars)''
                 else ''No llms-full.txt found''),
      recommendation = (if truthy file
                        then ''llms-full.txt is present '' @ em_dash @ '' good!''
                        else ''Add /llms-full.txt with complete site content in markdown for bulk LLM ingestion'')\<rparr>"

definition securityTxt_item :: "string option \<Rightarrow> AuditItem" where
  "securityTxt_item file =
     \<lparr>name = ''security.txt'', category = Medium,
      score = (if truthy file then 100 else 0), maxScore = 100,
      status = (if truthy file then Pass else Fail),
      details = (if truthy file then ''security.txt found at /.well-known/security.txt''
                 else ''No security.txt found''),
      recommendation = (if truthy file then ''RFC 9116 security.txt is present''
                        else ''Add /.well-known/security.txt per RFC 9116 with security contact info'')\<rparr>"

definition tdmrepJson_item :: "string option \<Rightarrow> AuditItem" where
  "tdmrepJson_item file =
     \<lparr>name = ''tdmrep.json'', category = Medium,
      score = (if truthy file then 100 else 0), maxScore = 100,
      status = (if truthy file then Pass else Fail),
      details = (if truthy file then ''TDM reservation found'' else ''No TDM reservation found''),
      recommendation = (if truthy file then ''W3C TDM reservation is present''
                        else ''Add /.well-known/tdmrep.json to define text/data mining rights'')\<rparr>"

definition manifestJson_item :: "string option \<Rightarrow> AuditItem" where
  "manifestJson_item file =
     \<lparr>name = ''manifest.json'', category = Medium,
      score = (if truthy file then 100 else 0), maxScore = 100,
      status = (if truthy file then Pass else Fail),
      details = (if truthy file then ''Web manifest found'' else ''No web manifest found''),
      recommendation = (if truthy file then ''Web manifest is present''
                        else ''Add manifest.json for site identity metadata'')\<rparr>"

definition humansTxt_item :: "string option \<Rightarrow> AuditItem" where
  "humansTxt_item file =
     \<lparr>name = ''humans.txt'', category = Low,
      score = (if truthy file then 100 else 0), maxScore = 100,
      status = (if truthy file then Pass else Fail),
      details = (if truthy file then ''humans.txt found'' else ''No humans.txt found''),
      recommendation = (if truthy file then ''humans.txt is present''
                        else ''Add /humans.txt for team and technology info'')\<rparr>"

text \<open>The findings of \<open>auditSite\<close>, in the order of its \<open>items.push\<close> calls.\<close>

definition audit_items :: "int \<Rightarrow> (string \<Rightarrow> int option) \<Rightarrow> SiteCrawlResult \<Rightarrow> AuditItem list" where
  "audit_items now parseDate crawlResult =
     (let existingGeoFiles = existingGeoFiles crawlResult;
          pages = pages crawlResult
      in [auditRobotsTxt (robotsTxt existingGeoFiles),
          auditSitemap (sitemapXml existingGeoFiles) (length pages),
          auditLlmsTxt (llmsTxt existingGeoFiles),
          auditStructuredData crawlResult,
          auditServerRendering crawlResult,
          auditAiBotBlocking (robotsTxt existingGeoFiles),
          auditSearchIndexing crawlResult,
          llmsFullTxt_item (llmsFullTxt existingGeoFiles),
          auditAiPolicy (aiTxt existingGeoFiles) (aiJson existingGeoFiles),
          auditMetaDescriptions crawlResult,
          auditHeadingHierarchy crawlResult,
          auditContentFreshness now parseDate crawlResult,
          auditContentDepth crawlResult,
          securityTxt_item (securityTxt existingGeoFiles),
          tdmrepJson_item (tdmrepJson existingGeoFiles),
          auditOpenGraph crawlResult,
          auditAiContentDirectives crawlResult,
          manifestJson_item (manifestJson existingGeoFiles),
          humansTxt_item (humansTxt existingGeoFiles),
          auditFAQContent crawlResult])"

section \<open>Aggregation (geo-auditor.ts)\<close>

text \<open>\<open>const weights = { critical: 3, high: 2, medium: 1, low: 0.5 }\<close>\<close>

fun weights :: "category \<Rightarrow> number" where
  "weights Critical = 3"
| "weights High = 2"
| "weights Medium = 1"
| "weights Low = 1 / 2"

text \<open>The state of the scoring loop: the two running sums and the per-tier counts.\<close>

record tally_state =
  totalWeightedScore :: number
  totalWeightedMax :: number
  summary_acc :: tier_summary

definition empty_summary :: tier_summary where
  "empty_summary =
     \<lparr>critical = \<lparr>passed = 0, total = 0\<rparr>, high = \<lparr>passed = 0, total = 0\<rparr>,
      medium = \<lparr>passed = 0, total = 0\<rparr>, low = \<lparr>passed = 0, total = 0\<rparr>\<rparr>"

definition initial_tally :: tally_state where
  "initial_tally = \<lparr>totalWeightedScore = 0, totalWeightedMax = 0, summary_acc = empty_summary\<rparr>"

text \<open>\<open>summary[item.category].total++\<close> and \<open>summary[item.category].passed++\<close>\<close>

fun bump_total :: "category \<Rightarrow> tier_summary \<Rightarrow> tier_summary" where
  "bump_total Critical s = s\<lparr>critical := (critical s)\<lparr>total := total (critical s) + 1\<rparr>\<rparr>"
| "bump_total High s = s\<lparr>high := (high s)\<lparr>total := total (high s) + 1\<rparr>\<rparr>"
| "bump_total Medium s = s\<lparr>medium := (medium s)\<lparr>total := total (medium s) + 1\<rparr>\<rparr>"
| "bump_total Low s = s\<lparr>low := (low s)\<lparr>total := total (low s) + 1\<rparr>\<rparr>"

fun bump_passed :: "category \<Rightarrow> tier_summary \<Rightarrow> tier_summary" where
  "bump_passed Critical s = s\<lparr>critical := (critical s)\<lparr>passed := passed (critical s) + 1\<rparr>\<rparr>"
| "bump_passed High s = s\<lparr>high := (high s)\<lparr>passed := passed (high s) + 1\<rparr>\<rparr>"
| "bump_passed Medium s = s\<lparr>medium := (medium s)\<lparr>passed := passed (medium s) + 1\<rparr>\<rparr>"
| "bump_passed Low s = s\<lparr>low := (low s)\<lparr>passed := passed (low s) + 1\<rparr>\<rparr>"

definition count_item :: "AuditItem \<Rightarrow> tier_summary \<Rightarrow> tier_summary" where
  "count_item item s =
     (let s1 = bump_total (category item) s
      in if status item = Pass \<or> status item = Partial then bump_passed (category item) s1 else s1)"

text \<open>One pass of \<open>for (const item of items)\<close> in \<open>auditSite\<close>.\<close>

definition tally_step :: "tally_state \<Rightarrow> AuditItem \<Rightarrow> tally_state" where
  "tally_step st item =
     (let weight = weights (category item)
      in \<lparr>totalWeightedScore = totalWeightedScore st + score item * weight,
          totalWeightedMax = totalWeightedMax st + maxScore item * weight,
          summary_acc = count_item item (summary_acc st)\<rparr>)"

definition tally_items :: "AuditItem list \<Rightarrow> tally_state" where
  "tally_items its = foldl tally_step initial_tally its"

text \<open>\<open>scoreToGrade\<close> of geo-auditor.ts.\<close>

definition scoreToGrade :: "number \<Rightarrow> string" where
  "scoreToGrade s =
     (if s \<ge> 90 then ''A+''
      else if s \<ge> 80 then ''A''
      else if s \<ge> 70 then ''B''
      else if s \<ge> 60 then ''C''
      else if s \<ge> 50 then ''D''
      else ''F'')"

text \<open>The tail of \<open>auditSite\<close>, from \<open>// Calculate scores\<close> to the returned object.\<close>

definition aggregate :: "AuditItem list \<Rightarrow> AuditResult" where
  "aggregate its =
     (let st = tally_items its;
          overall = (if totalWeightedMax st > 0
                     then Math_round ((totalWeightedScore st / totalWeightedMax st) * 100)
                     else 0)
      in \<lparr>overallScore = overall, maxPossibleScore = 100, grade = scoreToGrade overall,
          items = its, summary = summary_acc st\<rparr>)"

definition auditSite :: "int \<Rightarrow> (string \<Rightarrow> int option) \<Rightarrow> SiteCrawlResult \<Rightarrow> AuditResult" where
  "auditSite now parseDate crawlResult = aggregate (audit_items now parseDate crawlResult)"

section \<open>Projection (comparison report)\<close>

record improvement =
  imp_score :: number
  imp_note :: string

definition PROJECTED_IMPROVEMENTS :: "(string \<times> improvement) list" where
  "PROJECTED_IMPROVEMENTS =
    [(''robots.txt'', \<lparr>imp_score = 100, imp_note = ''AI crawler directives for 13 bots''\<rparr>),
     (''AI Bot Blocking'', \<lparr>imp_score = 100, imp_note = ''Explicit Allow directives for all AI crawlers''\<rparr>),
     (''sitemap.xml'', \<lparr>imp_score = 100, imp_note = ''Generated sitemap with all discovered URLs''\<rparr>),
     (''llms.txt'', \<lparr>imp_score = 100, imp_note = ''Site structure per llmstxt.org spec''\<rparr>),
     (''llms-full.txt'', \<lparr>imp_score = 100, imp_note = ''Full content dump for LLM ingestion''\<rparr>),
     (''AI Policy (ai.txt / ai.json)'', \<lparr>imp_score = 100, imp_note = ''Machine + human-readable AI policy''\<rparr>),
     (''security.txt'', \<lparr>imp_score = 100, imp_note = ''RFC 9116 security contact file''\<rparr>),
     (''tdmrep.json'', \<lparr>imp_score = 100, imp_note = ''Text & data mining rights reservation''\<rparr>),
     (''humans.txt'', \<lparr>imp_score = 100, imp_note = ''Team and technology credits''\<rparr>),
     (''manifest.json'', \<lparr>imp_score = 100, imp_note = ''Web app identity manifest''\<rparr>),
     (''Structured Data (JSON-LD)'', \<lparr>imp_score = 85, imp_note = ''Organization + WebSite schemas''\<rparr>)]"

text \<open>
  \<open>PROJECTED_IMPROVEMENTS[item.name]\<close> reads a property of an object literal. A name that
  is no key of the literal yields \<open>undefined\<close>, or a member inherited from
  \<open>Object.prototype\<close> (for a name such as \<open>constructor\<close>) whose \<open>score\<close> is
  \<open>undefined\<close>, and then \<open>item.score < improvement.score\<close> is false: both cases take the
  branch \<open>return { ...item }\<close>, as the lookup failure does here.
\<close>

definition projectItem :: "AuditItem \<Rightarrow> AuditItem" where
  "projectItem item =
     (case map_of PROJECTED_IMPROVEMENTS (name item) of
        Some improvement \<Rightarrow>
          if score item < imp_score improvement
          then item\<lparr>score := imp_score improvement,
                    status := (if imp_score improvement \<ge> 70 then Pass else Partial),
                    details := imp_note improvement,
                    recommendation := ''Included in generated package''\<rparr>
          else item
      | None \<Rightarrow> item)"

text \<open>
  \<open>const weights: Record<string, number> = { critical: 3, high: 2, medium: 1, low: 0.5 }\<close>,
  read as \<open>weights[item.category] ?? 1\<close>.
\<close>

fun category_key :: "category \<Rightarrow> string" where
  "category_key Critical = ''critical''"
| "category_key High = ''high''"
| "category_key Medium = ''medium''"
| "category_key Low = ''low''"

definition weights_comparison :: "(string \<times> number) list" where
  "weights_comparison = [(''critical'', 3), (''high'', 2), (''medium'', 1), (''low'', 1 / 2)]"

definition weight_or_default :: "category \<Rightarrow> number" where
  "weight_or_default c =
     (case map_of weights_comparison (category_key c) of Some w \<Rightarrow> w | None \<Rightarrow> 1)"

definition tally_step_comparison :: "tally_state \<Rightarrow> AuditItem \<Rightarrow> tally_state" where
  "tally_step_comparison st item =
     (let weight = weight_or_default (category item)
      in \<lparr>totalWeightedScore = totalWeightedScore st + score item * weight,
          totalWeightedMax = totalWeightedMax st + maxScore item * weight,
          summary_acc = count_item item (summary_acc st)\<rparr>)"

definition tally_items_comparison :: "AuditItem list \<Rightarrow> tally_state" where
  "tally_items_comparison its = foldl tally_step_comparison initial_tally its"

text \<open>The second \<open>scoreToGrade\<close>, the private copy of the comparison report.\<close>

definition scoreToGrade_comparison :: "number \<Rightarrow> string" where
  "scoreToGrade_comparison s =
     (if s \<ge> 90 then ''A+''
      else if s \<ge> 80 then ''A''
      else if s \<ge> 70 then ''B''
      else if s \<ge> 60 then ''C''
      else if s \<ge> 50 then ''D''
      else ''F'')"

definition generateProjectedAudit :: "AuditResult \<Rightarrow> AuditResult" where
  "generateProjectedAudit before =
     (let projectedItems = map projectItem (items before);
          st = tally_items_comparison projectedItems;
          overall = (if totalWeightedMax st > 0
                     then Math_round ((totalWeightedScore st / totalWeightedMax st) * 100)
                     else 0)
      in \<lparr>overallScore = overall, maxPossibleScore = 100,
          grade = scoreToGrade_comparison overall,
          items = projectedItems, summary = summary_acc st\<rparr>)"

section \<open>The properties, as the specification words them\<close>




text \<open>The grade steps of the specification, highest first; below all of them the grade is F.\<close>

definition grade_steps :: "(number \<times> string) list" where
  "grade_steps = [(90, ''A+''), (80, ''A''), (70, ''B''), (60, ''C''), (50, ''D'')]"

definition spec_grade :: "number \<Rightarrow> string" where
  "spec_grade s = (case find (\<lambda>(threshold, g). s \<ge> threshold) grade_steps of
                     Some (threshold, g) \<Rightarrow> g | None \<Rightarrow> ''F'')"

text \<open>The range of a score: \<open>0 \<le> score \<le> 100\<close>.\<close>

definition score_in_range :: "number \<Rightarrow> bool" where
  "score_in_range x = (0 \<le> x \<and> x \<le> 100)"

text \<open>
  The sitemap score as the specification words it: 50 for existing, 25 for one URL entry
  or more, 25 if every entry carries a last-modified date. An entry is an occurrence of
  \<open><loc>\<close>, a date an occurrence of \<open><lastmod>\<close>; every entry carries a date when there
  are as many dates as entries.
\<close>

fun count_occurrences :: "string \<Rightarrow> string \<Rightarrow> nat" where
  "count_occurrences pat [] = 0"
| "count_occurrences pat (c # cs) =
     (if prefix pat (c # cs) then 1 else 0) + count_occurrences pat cs"

definition every_entry_has_lastmod :: "string \<Rightarrow> bool" where
  "every_entry_has_lastmod text =
     (count_occurrences ''<loc>'' text \<le> count_occurrences ''<lastmod>'' text)"

definition spec_sitemap_score :: "string \<Rightarrow> number" where
  "spec_sitemap_score text =
     min 100 (50 + (if count_occurrences ''<loc>'' text > 0 then 25 else 0)
                 + (if every_entry_has_lastmod text then 25 else 0))"

text \<open>The crawlers of the reference list that the directive scan of a robots.txt marks blocked.\<close>

definition blocked_crawlers :: "string \<Rightarrow> string set" where
  "blocked_crawlers robotsText =
     set (blockedBots (scan_lines robotsText (map trim (split_lines robotsText))))"

definition blockedCount :: "string \<Rightarrow> nat" where
  "blockedCount robotsText = card (blocked_crawlers robotsText)"

text \<open>
  What a full \<open>Disallow: /\<close> marks, given the user agents collected before it: under the
  wild card every reference crawler without an explicit \<open>Allow: /\<close> in a block of its
  own; under another agent the reference crawler of that name, whatever the case of its
  letters.
\<close>

definition marked_by :: "string \<Rightarrow> string list \<Rightarrow> string set" where
  "marked_by robotsText agents =
     {bot \<in> set aiCrawlers.
        (''*'' \<in> set agents \<and> \<not> hasExplicitAllow robotsText bot)
        \<or> (\<exists>agent \<in> set agents. agent \<noteq> ''*'' \<and> toLowerCase bot = toLowerCase agent)}"


section \<open>Example inputs\<close>

text \<open>An audit of three findings: two that the projection table lists, one that it does not.\<close>

definition example_audit :: AuditResult where
  "example_audit =
     \<lparr>overallScore = 0, maxPossibleScore = 100, grade = ''F'',
      items =
        [\<lparr>name = ''robots.txt'', category = Critical, score = 0, maxScore = 100, status = Fail,
          details = ''Test details'', recommendation = ''Test recommendation''\<rparr>,
         \<lparr>name = ''humans.txt'', category = Low, score = 100, maxScore = 100, status = Pass,
          details = ''Test details'', recommendation = ''Test recommendation''\<rparr>,
         \<lparr>name = ''Meta Descriptions'', category = High, score = 40, maxScore = 100, status = Fail,
          details = ''Test details'', recommendation = ''Test recommendation''\<rparr>],
      summary = \<lparr>critical = \<lparr>passed = 0, total = 1\<rparr>, high = \<lparr>passed = 0, total = 1\<rparr>,
                 medium = \<lparr>passed = 0, total = 0\<rparr>, low = \<lparr>passed = 1, total = 1\<rparr>\<rparr>\<rparr>"

text \<open>A crawl that found no page and no policy file.\<close>

definition no_files :: ExistingGeoFiles where
  "no_files =
     \<lparr>robotsTxt = None, sitemapXml = None, llmsTxt = None, llmsFullTxt = None, aiTxt = None,
      aiJson = None, securityTxt = None, tdmrepJson = None, humansTxt = None,
      manifestJson = None, bingSiteAuth = None\<rparr>"

definition empty_crawl :: SiteCrawlResult where
  "empty_crawl = \<lparr>pages = [], existingGeoFiles = no_files\<rparr>"

text \<open>A sitemap of two entries, of which the first alone has a last-modified date.\<close>

definition two_entry_sitemap :: string where
  "two_entry_sitemap =
     ''<urlset><url><loc>https://example.com/</loc><lastmod>2025-01-01</lastmod></url><url><loc>https://example.com/about</loc></url></urlset>''"

text \<open>The sitemaps of the test suite: one entry without, and one with a last-modified date.\<close>

definition sitemap_without_lastmod :: string where
  "sitemap_without_lastmod = ''<urlset><url><loc>https://example.com/</loc></url></urlset>''"

definition sitemap_with_lastmod :: string where
  "sitemap_with_lastmod =
     ''<urlset><url><loc>https://example.com/</loc><lastmod>2025-01-01</lastmod></url></urlset>''"



section \<open>Rounding and ratios\<close>

lemma Math_round_nonneg: "0 \<le> x \<Longrightarrow> 0 \<le> Math_round x"
  by (simp add: Math_round_def)

lemma Math_round_le: "x \<le> of_int n \<Longrightarrow> Math_round x \<le> of_int n"
proof -
  assume "x \<le> of_int n"
  then have "x + 1 / 2 < of_int (n + 1)" by simp
  then have "\<lfloor>x + 1 / 2\<rfloor> < n + 1" by (simp only: floor_less_iff)
  then show ?thesis by (simp add: Math_round_def)
qed

lemma Math_round_le_numeral: "x \<le> numeral k \<Longrightarrow> Math_round x \<le> numeral k"
  using Math_round_le [of x "numeral k"] by simp

lemma Math_round_of_int: "Math_round (of_int n) = of_int n"
proof -
  have "\<lfloor>of_int n + (1::rat) / 2\<rfloor> = n"
    by (rule floor_unique) simp_all
  then show ?thesis by (simp add: Math_round_def)
qed

lemma Math_round_0: "Math_round 0 = 0"
  using Math_round_of_int [of 0] by simp


lemma ratio_bounds:
  fixes a b :: nat
  assumes "a \<le> b"
  shows "0 \<le> (of_nat a / of_nat b :: rat)" and "(of_nat a / of_nat b :: rat) \<le> 1"
proof -
  show "0 \<le> (of_nat a / of_nat b :: rat)" by simp
  show "(of_nat a / of_nat b :: rat) \<le> 1"
  proof (cases "b = 0")
    case True then show ?thesis by simp
  next
    case False
    then show ?thesis using assms by (simp add: divide_le_eq)
  qed
qed

lemma count_where_le: "count_where P xs \<le> length xs"
  by (induction xs) simp_all

lemma percent_bounds:
  fixes c :: rat
  assumes "0 \<le> c" "c \<le> 1"
  shows "0 \<le> Math_round (c * 100) \<and> Math_round (c * 100) \<le> 100"
proof -
  from assms have "c * 100 \<le> 100" by simp
  then show ?thesis using assms by (simp add: Math_round_nonneg Math_round_le_numeral)
qed

lemma coverage_percent_bounds:
  fixes a n :: nat
  assumes "a \<le> n"
  shows "0 \<le> Math_round ((if n > 0 then of_nat a / of_nat n else 0) * 100) \<and>
         Math_round ((if n > 0 then of_nat a / of_nat n else 0) * 100) \<le> 100"
  using ratio_bounds [OF assms] by (intro percent_bounds) auto

section \<open>Reading one field of a finding\<close>

lemma Let_unused: "Let a (\<lambda>x. c) = c"
  by simp

lemma maxScore_Let: "maxScore (Let a g) = Let a (\<lambda>x. maxScore (g x))"
  by simp

lemma maxScore_if: "maxScore (if c then a else b) = (if c then maxScore a else maxScore b)"
  by simp

lemma score_Let: "score (Let a g) = Let a (\<lambda>x. score (g x))"
  by simp

lemma score_if: "score (if c then a else b) = (if c then score a else score b)"
  by simp

lemma status_Let: "status (Let a g) = Let a (\<lambda>x. status (g x))"
  by simp

lemma status_if: "status (if c then a else b) = (if c then status a else status b)"
  by simp



lemmas item_field = maxScore_Let maxScore_if score_Let score_if status_Let status_if
  Let_unused AuditItem.simps if_cancel


section \<open>The findings of the audit: claim C5\<close>

lemma in_range_if:
  "(c \<Longrightarrow> score_in_range a) \<Longrightarrow> (\<not> c \<Longrightarrow> score_in_range b) \<Longrightarrow> score_in_range (if c then a else b)"
  by simp

lemma in_range_consts:
  "score_in_range 0" "score_in_range 30" "score_in_range 50" "score_in_range 100"
  by (simp_all add: score_in_range_def)

lemma in_range_round:
  "0 \<le> x \<Longrightarrow> x \<le> 100 \<Longrightarrow> score_in_range (Math_round x)"
  by (simp add: score_in_range_def Math_round_nonneg Math_round_le_numeral)

lemma in_range_min_100: "0 \<le> x \<Longrightarrow> score_in_range (min 100 x)"
  by (simp add: score_in_range_def)

lemma in_range_percent:
  fixes a n :: nat
  assumes "a \<le> n"
  shows "score_in_range (Math_round ((if n > 0 then of_nat a / of_nat n else 0) * 100))"
  using coverage_percent_bounds [OF assms] by (simp add: score_in_range_def)

lemma maxScore_auditRobotsTxt: "maxScore (auditRobotsTxt c) = 100"
  unfolding auditRobotsTxt_def by (simp only: item_field)

lemma score_auditRobotsTxt: "score_in_range (score (auditRobotsTxt c))"
  unfolding auditRobotsTxt_def
  apply (simp only: item_field)
  apply (simp only: Let_def)
  apply (intro in_range_if in_range_consts in_range_round)
   apply (simp_all del: min_less_iff_conj)
  done

lemma maxScore_auditSitemap: "maxScore (auditSitemap c n) = 100"
  unfolding auditSitemap_def by (simp only: item_field)

lemma score_auditSitemap: "score_in_range (score (auditSitemap c n))"
  unfolding auditSitemap_def
  apply (simp only: item_field)
  apply (simp add: Let_def score_in_range_def)
  done

lemma maxScore_auditLlmsTxt: "maxScore (auditLlmsTxt c) = 100"
  unfolding auditLlmsTxt_def by (simp only: item_field)

lemma score_auditLlmsTxt: "score_in_range (score (auditLlmsTxt c))"
  unfolding auditLlmsTxt_def
  apply (simp only: item_field)
  apply (simp add: Let_def score_in_range_def)
  done

lemma maxScore_auditStructuredData: "maxScore (auditStructuredData c) = 100"
  unfolding auditStructuredData_def by (simp only: item_field)

lemma structured_core:
  fixes cov :: rat
  assumes "0 \<le> cov"
  shows "0 \<le> min 50 (Math_round (cov * 50)) + (if a then 20 else 0) + (if b then 15 else 0)
              + (if c then 15 else (0::rat))"
proof -
  have "0 \<le> Math_round (cov * 50)" using assms by (simp add: Math_round_nonneg)
  then show ?thesis by simp
qed

lemma score_auditStructuredData: "score_in_range (score (auditStructuredData c))"
  unfolding auditStructuredData_def
  apply (simp only: item_field)
  apply (simp only: Let_def)
  apply (intro in_range_if in_range_consts in_range_min_100 structured_core)
  apply simp
  done

lemma maxScore_auditServerRendering: "maxScore (auditServerRendering c) = 100"
  unfolding auditServerRendering_def by (simp only: item_field)

lemma score_auditServerRendering: "score_in_range (score (auditServerRendering c))"
  unfolding auditServerRendering_def
  apply (simp only: item_field)
  apply (simp only: Let_def)
  apply (rule in_range_percent)
  apply (rule count_where_le)
  done

lemma maxScore_auditAiBotBlocking: "maxScore (auditAiBotBlocking c) = 100"
  unfolding auditAiBotBlocking_def by (simp only: item_field)

lemma blocking_core:
  fixes p :: rat
  assumes "0 \<le> p"
  shows "score_in_range (Math_round (max 0 ((1 - p) * 100)))"
  using assms by (intro in_range_round) simp_all

lemma score_auditAiBotBlocking: "score_in_range (score (auditAiBotBlocking c))"
  unfolding auditAiBotBlocking_def
  apply (simp only: item_field)
  apply (simp only: Let_def)
  apply (intro in_range_if in_range_consts blocking_core)
  apply simp
  done

lemma maxScore_auditSearchIndexing: "maxScore (auditSearchIndexing c) = 100"
  unfolding auditSearchIndexing_def by (simp only: item_field)

lemma indexing_core:
  fixes c :: rat
  shows "score_in_range
    ((if g then 20 else 0) + (if b then 20 else 0) + (if s then 20 else 0) + (if n then 20 else 0)
      + (if c \<ge> 8 / 10 then 20 else if c > 0 then Math_round (20 * c) else 0))"
proof -
  have "0 \<le> Math_round (20 * c)" if "c > 0"
    using that by (simp add: Math_round_nonneg)
  moreover have "Math_round (20 * c) \<le> 20" if "\<not> c \<ge> 8 / 10"
    using that by (intro Math_round_le_numeral) simp
  ultimately show ?thesis
    by (auto simp add: score_in_range_def)
qed

lemma score_auditSearchIndexing: "score_in_range (score (auditSearchIndexing c))"
  unfolding auditSearchIndexing_def
  apply (simp only: item_field)
  apply (simp only: Let_def)
  apply (rule indexing_core)
  done

lemma presence_items_maxScore:
  "maxScore (llmsFullTxt_item f) = 100" "maxScore (securityTxt_item f) = 100"
  "maxScore (tdmrepJson_item f) = 100" "maxScore (manifestJson_item f) = 100"
  "maxScore (humansTxt_item f) = 100"
  by (simp_all add: llmsFullTxt_item_def securityTxt_item_def tdmrepJson_item_def
      manifestJson_item_def humansTxt_item_def)

lemma presence_items_score:
  "score_in_range (score (llmsFullTxt_item f))" "score_in_range (score (securityTxt_item f))"
  "score_in_range (score (tdmrepJson_item f))" "score_in_range (score (manifestJson_item f))"
  "score_in_range (score (humansTxt_item f))"
  by (simp_all add: llmsFullTxt_item_def securityTxt_item_def tdmrepJson_item_def
      manifestJson_item_def humansTxt_item_def score_in_range_def)

lemma maxScore_auditAiPolicy: "maxScore (auditAiPolicy t j) = 100"
  unfolding auditAiPolicy_def by (simp only: item_field)

lemma score_auditAiPolicy: "score_in_range (score (auditAiPolicy t j))"
  unfolding auditAiPolicy_def
  apply (simp only: item_field)
  apply (simp add: Let_def score_in_range_def)
  done

lemma maxScore_auditMetaDescriptions: "maxScore (auditMetaDescriptions c) = 100"
  unfolding auditMetaDescriptions_def by (simp only: item_field)

lemma score_auditMetaDescriptions: "score_in_range (score (auditMetaDescriptions c))"
  unfolding auditMetaDescriptions_def
  apply (simp only: item_field)
  apply (simp only: Let_def)
  apply (rule in_range_percent)
  apply (rule count_where_le)
  done

lemma maxScore_auditHeadingHierarchy: "maxScore (auditHeadingHierarchy c) = 100"
  unfolding auditHeadingHierarchy_def by (simp only: item_field)

lemma correct_le_headed:
  "count_where correct_hierarchy ps \<le> length (filter (\<lambda>p. length (headings (content p)) > 0) ps)"
  by (induction ps) (auto simp add: correct_hierarchy_def Let_def)

lemma score_auditHeadingHierarchy: "score_in_range (score (auditHeadingHierarchy c))"
  unfolding auditHeadingHierarchy_def
  apply (simp only: item_field)
  apply (simp only: Let_def)
  apply (rule in_range_percent)
  apply (rule correct_le_headed)
  done

lemma maxScore_auditOpenGraph: "maxScore (auditOpenGraph c) = 100"
  unfolding auditOpenGraph_def by (simp only: item_field)

lemma score_auditOpenGraph: "score_in_range (score (auditOpenGraph c))"
  unfolding auditOpenGraph_def
  apply (simp only: item_field)
  apply (simp only: Let_def)
  apply (rule in_range_percent)
  apply (rule count_where_le)
  done

lemma maxScore_auditAiContentDirectives: "maxScore (auditAiContentDirectives c) = 100"
  unfolding auditAiContentDirectives_def by (simp only: item_field)

lemma directives_core:
  fixes a b n :: nat
  assumes "a \<le> n" "b \<le> n"
  shows "score_in_range (Math_round
     (((if a > 0 then 50 else 0) + (if b > 0 then 50 else 0))
        * max (if n > 0 then of_nat (max a b) / of_nat n else 0)
              (if a > 0 \<or> b > 0 then 1 / 2 else 0)))"
proof -
  let ?s = "(if a > 0 then 50 else 0) + (if b > 0 then 50 else (0::rat))"
  let ?f = "max (if n > 0 then of_nat (max a b) / of_nat n else 0)
              (if a > 0 \<or> b > 0 then 1 / 2 else (0::rat))"
  have "max a b \<le> n" using assms by simp
  from ratio_bounds [OF this] have f: "0 \<le> ?f" "?f \<le> 1" by auto
  have s: "0 \<le> ?s" "?s \<le> 100" by auto
  have "0 \<le> ?s * ?f" using s f by (intro mult_nonneg_nonneg)
  moreover have "?s * ?f \<le> 100 * 1" using s f by (intro mult_mono) auto
  ultimately show ?thesis by (intro in_range_round) simp_all
qed

lemma score_auditAiContentDirectives: "score_in_range (score (auditAiContentDirectives c))"
  unfolding auditAiContentDirectives_def
  apply (simp only: item_field)
  apply (simp only: Let_def)
  apply (rule directives_core)
   apply (rule count_where_le)+
  done

lemma maxScore_auditContentFreshness: "maxScore (auditContentFreshness now pd c) = 100"
  unfolding auditContentFreshness_def by (simp only: item_field)

lemma freshness_core:
  fixes a b c d n :: nat
  shows "score_in_range (min 100 (Math_round
     (of_nat a / of_nat n * 50 + (if d > 0 then of_nat b / of_nat d else 0) * 30
        + (if n > 0 then of_nat c / of_nat n else 0) * 20)))"
  by (intro in_range_min_100 Math_round_nonneg add_nonneg_nonneg mult_nonneg_nonneg) simp_all

lemma score_auditContentFreshness: "score_in_range (score (auditContentFreshness now pd c))"
  unfolding auditContentFreshness_def
  apply (simp only: item_field)
  apply (simp only: Let_def)
  apply (intro in_range_if in_range_consts freshness_core)
  done

lemma maxScore_auditContentDepth: "maxScore (auditContentDepth c) = 100"
  unfolding auditContentDepth_def by (simp only: item_field)

lemma thinPages_foldl:
  "thinPages (foldl depth_step st ps) \<le> thinPages st + length ps"
proof (induction ps arbitrary: st)
  case Nil
  show ?case by simp
next
  case (Cons p ps)
  have "thinPages (depth_step st p) \<le> thinPages st + 1"
    by (simp add: depth_step_def Let_def)
  with Cons [of "depth_step st p"] show ?case by simp
qed

lemma depth_core:
  fixes t s w n :: nat
  assumes "t \<le> n"
  shows "score_in_range (min 100 (Math_round
     ((1 - of_nat t / of_nat n) * 30 + of_nat s / of_nat n * 40
        + (if s > 0 then of_nat w / of_nat s else 0) * 30)))"
proof -
  have "(of_nat t / of_nat n :: rat) \<le> 1" by (rule ratio_bounds [OF assms])
  then have "0 \<le> (1 - of_nat t / of_nat n :: rat)" by simp
  then have h: "0 \<le> (1 - of_nat t / of_nat n :: rat) * 30" by (rule mult_nonneg_nonneg) simp
  show ?thesis
    by (intro in_range_min_100 Math_round_nonneg add_nonneg_nonneg h mult_nonneg_nonneg) simp_all
qed

lemma score_auditContentDepth: "score_in_range (score (auditContentDepth c))"
  unfolding auditContentDepth_def
  apply (simp only: item_field)
  apply (simp only: Let_def)
  apply (intro in_range_if in_range_consts depth_core)
  using thinPages_foldl [of "\<lparr>thinPages = 0, substantivePages = 0, wellStructured = 0\<rparr>" "pages c"]
  apply simp
  done

lemma maxScore_auditFAQContent: "maxScore (auditFAQContent c) = 100"
  unfolding auditFAQContent_def by (simp only: item_field)

lemma faq_core:
  fixes n :: nat
  shows "score_in_range (min 100 (min 60 (of_nat n * 15) + (if h then 40 else 0)))"
  by (intro in_range_min_100) simp

lemma score_auditFAQContent: "score_in_range (score (auditFAQContent c))"
  unfolding auditFAQContent_def
  apply (simp only: item_field)
  apply (simp only: Let_def)
  apply (intro in_range_if in_range_consts faq_core)
  done

lemmas evaluator_maxScore =
  maxScore_auditRobotsTxt maxScore_auditSitemap maxScore_auditLlmsTxt maxScore_auditStructuredData
  maxScore_auditServerRendering maxScore_auditAiBotBlocking maxScore_auditSearchIndexing
  presence_items_maxScore maxScore_auditAiPolicy maxScore_auditMetaDescriptions
  maxScore_auditHeadingHierarchy maxScore_auditContentFreshness maxScore_auditContentDepth
  maxScore_auditOpenGraph maxScore_auditAiContentDirectives maxScore_auditFAQContent

lemmas evaluator_score =
  score_auditRobotsTxt score_auditSitemap score_auditLlmsTxt score_auditStructuredData
  score_auditServerRendering score_auditAiBotBlocking score_auditSearchIndexing
  presence_items_score score_auditAiPolicy score_auditMetaDescriptions
  score_auditHeadingHierarchy score_auditContentFreshness score_auditContentDepth
  score_auditOpenGraph score_auditAiContentDirectives score_auditFAQContent


lemma status_cases: "(s::status) \<in> {Pass, Partial, Fail, NotApplicable}"
  by (cases s) simp_all

lemma items_auditSite: "items (auditSite now pd c) = audit_items now pd c"
  by (simp add: auditSite_def aggregate_def Let_def)

lemma audit_items_valid:
  "item \<in> set (audit_items now pd c) \<Longrightarrow> score_in_range (score item) \<and> maxScore item = 100"
  unfolding audit_items_def Let_def
  by (auto simp add: evaluator_maxScore evaluator_score)

lemma length_audit_items: "length (audit_items now pd c) = 20"
  by (simp add: audit_items_def Let_def)

text \<open>
  Claim C5. Every finding in the list of \<open>auditSite\<close> has a score between 0 and its
  maximum, a maximum of 100, and one of the four statuses. The list has 20 findings
  (\<open>length_audit_items\<close>): those of the 15 evaluator functions and of the 5 presence
  checks written inline, each covered by \<open>evaluator_score\<close> and \<open>evaluator_maxScore\<close>.
\<close>

theorem findings_are_well_formed:
  "\<forall>item \<in> set (items (auditSite now parseDate crawlResult)).
     0 \<le> score item \<and> score item \<le> maxScore item \<and> maxScore item = 100
     \<and> status item \<in> {Pass, Partial, Fail, NotApplicable}"
proof
  fix item
  assume "item \<in> set (items (auditSite now parseDate crawlResult))"
  then have "item \<in> set (audit_items now parseDate crawlResult)"
    by (simp add: items_auditSite)
  from audit_items_valid [OF this] status_cases [of "status item"]
  show "0 \<le> score item \<and> score item \<le> maxScore item \<and> maxScore item = 100
        \<and> status item \<in> {Pass, Partial, Fail, NotApplicable}"
    by (simp add: score_in_range_def)
qed

theorem findings_are_well_formed_witness:
  "auditAiBotBlocking None \<in> set (items (auditSite 0 (\<lambda>_. None) empty_crawl))
   \<and> 0 \<le> score (auditAiBotBlocking None)
   \<and> score (auditAiBotBlocking None) \<le> maxScore (auditAiBotBlocking None)
   \<and> maxScore (auditAiBotBlocking None) = 100
   \<and> score (auditAiBotBlocking None) = 100"
proof -
  have mem: "auditAiBotBlocking None \<in> set (items (auditSite 0 (\<lambda>_. None) empty_crawl))"
    by (simp add: items_auditSite audit_items_def Let_def empty_crawl_def no_files_def)
  have "score (auditAiBotBlocking None) = 100"
    by (simp add: auditAiBotBlocking_def truthy_def)
  with mem findings_are_well_formed [of 0 "\<lambda>_. None" empty_crawl] show ?thesis
    by auto
qed

section \<open>The overall score: claim C1\<close>














section \<open>The grades: claim C4\<close>

lemma scoreToGrade_spec: "scoreToGrade s = spec_grade s"
  by (simp add: scoreToGrade_def spec_grade_def grade_steps_def)

lemma scoreToGrade_comparison_spec: "scoreToGrade_comparison s = spec_grade s"
  by (simp add: scoreToGrade_comparison_def spec_grade_def grade_steps_def)

text \<open>
  Claim C4. The two grade functions are the same function, the step function of the
  specification, and the grade of every audit that \<open>auditSite\<close> or
  \<open>generateProjectedAudit\<close> returns is that function of its overall score.
\<close>

theorem grade_mappings_agree:
  "scoreToGrade = scoreToGrade_comparison
   \<and> scoreToGrade s = spec_grade s
   \<and> grade (auditSite now parseDate crawlResult)
        = spec_grade (overallScore (auditSite now parseDate crawlResult))
   \<and> grade (generateProjectedAudit before)
        = spec_grade (overallScore (generateProjectedAudit before))"
proof (intro conjI)
  show "scoreToGrade = scoreToGrade_comparison"
    by (intro ext) (simp add: scoreToGrade_spec scoreToGrade_comparison_spec)
  show "scoreToGrade s = spec_grade s"
    by (rule scoreToGrade_spec)
  show "grade (auditSite now parseDate crawlResult)
          = spec_grade (overallScore (auditSite now parseDate crawlResult))"
    by (simp add: auditSite_def aggregate_def Let_def scoreToGrade_spec)
  show "grade (generateProjectedAudit before)
          = spec_grade (overallScore (generateProjectedAudit before))"
    by (simp add: generateProjectedAudit_def Let_def scoreToGrade_comparison_spec)
qed

theorem grade_mappings_agree_witness:
  "scoreToGrade 85 = ''A'' \<and> scoreToGrade_comparison 85 = ''A''
   \<and> grade (generateProjectedAudit example_audit) = ''B''
   \<and> overallScore (generateProjectedAudit example_audit) = 78"
proof -
  have "spec_grade 85 = ''A''"
    by (simp add: spec_grade_def grade_steps_def)
  moreover have "overallScore (generateProjectedAudit example_audit) = 78"
    by code_simp
  moreover have "spec_grade 78 = ''B''"
    by (simp add: spec_grade_def grade_steps_def)
  ultimately show ?thesis
    using grade_mappings_agree [of 85 0 "\<lambda>_. None" empty_crawl example_audit]
    by (metis (no_types))
qed

section \<open>The projection: claims C2, C3 and C9\<close>

lemma items_generateProjectedAudit:
  "items (generateProjectedAudit before) = map projectItem (items before)"
  by (simp add: generateProjectedAudit_def Let_def)

lemma distinct_improvement_names: "distinct (map fst PROJECTED_IMPROVEMENTS)"
  by (simp add: PROJECTED_IMPROVEMENTS_def)

lemma improvement_lookup:
  "(map_of PROJECTED_IMPROVEMENTS n = Some imp) = ((n, imp) \<in> set PROJECTED_IMPROVEMENTS)"
  using distinct_improvement_names by (auto intro: map_of_is_SomeI dest: map_of_SomeD)

lemma projectItem_eligible:
  assumes "(name item, imp) \<in> set PROJECTED_IMPROVEMENTS" "score item < imp_score imp"
  shows "projectItem item =
           item\<lparr>score := imp_score imp,
                status := (if imp_score imp \<ge> 70 then Pass else Partial),
                details := imp_note imp,
                recommendation := ''Included in generated package''\<rparr>"
  using assms by (simp add: projectItem_def improvement_lookup [symmetric])

lemma projectItem_not_eligible:
  assumes "\<not> (\<exists>imp. (name item, imp) \<in> set PROJECTED_IMPROVEMENTS \<and> score item < imp_score imp)"
  shows "projectItem item = item"
  using assms by (auto simp add: projectItem_def improvement_lookup split: option.splits)

lemma score_projectItem: "score item \<le> score (projectItem item)"
  by (simp add: projectItem_def split: option.splits)

lemma name_projectItem: "name (projectItem item) = name item"
  by (simp add: projectItem_def split: option.splits)

lemma projectItem_idem: "projectItem (projectItem item) = projectItem item"
  by (simp add: projectItem_def split: option.splits)

lemma projectItem_reaches_target:
  "map_of PROJECTED_IMPROVEMENTS (name item) = Some imp \<Longrightarrow> imp_score imp \<le> score (projectItem item)"
  by (simp add: projectItem_def)

text \<open>
  Claim C2. \<open>generateProjectedAudit\<close> keeps the number and the order of the findings. A
  finding whose name the table lists with a target above its score is replaced: score,
  status (\<open>pass\<close> from a target of 70 on, \<open>partial\<close> below), details and recommendation
  are set, the other fields stay, and the result differs from the finding. Every other
  finding is passed through unchanged.
\<close>

theorem projection_replaces_exactly_the_eligible_findings:
  "length (items (generateProjectedAudit before)) = length (items before)
   \<and> (\<forall>i < length (items before).
        (let item = items before ! i;
             projected = items (generateProjectedAudit before) ! i
         in (\<forall>imp. (name item, imp) \<in> set PROJECTED_IMPROVEMENTS \<and> score item < imp_score imp \<longrightarrow>
                projected = item\<lparr>score := imp_score imp,
                                 status := (if imp_score imp \<ge> 70 then Pass else Partial),
                                 details := imp_note imp,
                                 recommendation := ''Included in generated package''\<rparr>
                \<and> projected \<noteq> item)
          \<and> (\<not> (\<exists>imp. (name item, imp) \<in> set PROJECTED_IMPROVEMENTS \<and> score item < imp_score imp) \<longrightarrow>
                projected = item)))"
proof (intro conjI allI impI)
  show "length (items (generateProjectedAudit before)) = length (items before)"
    by (simp add: items_generateProjectedAudit)
next
  fix i
  assume i: "i < length (items before)"
  let ?item = "items before ! i"
  have proj: "items (generateProjectedAudit before) ! i = projectItem ?item"
    using i by (simp add: items_generateProjectedAudit)
  have a: "projectItem ?item = ?item\<lparr>score := imp_score imp,
                                 status := (if imp_score imp \<ge> 70 then Pass else Partial),
                                 details := imp_note imp,
                                 recommendation := ''Included in generated package''\<rparr>
        \<and> projectItem ?item \<noteq> ?item"
    if "(name ?item, imp) \<in> set PROJECTED_IMPROVEMENTS \<and> score ?item < imp_score imp" for imp
  proof -
    from that have eq: "projectItem ?item = ?item\<lparr>score := imp_score imp,
                                 status := (if imp_score imp \<ge> 70 then Pass else Partial),
                                 details := imp_note imp,
                                 recommendation := ''Included in generated package''\<rparr>"
      by (intro projectItem_eligible) simp_all
    then have "score (projectItem ?item) = imp_score imp" by simp
    with that have "projectItem ?item \<noteq> ?item" by auto
    with eq show ?thesis by simp
  qed
  have b: "projectItem ?item = ?item"
    if "\<not> (\<exists>imp. (name ?item, imp) \<in> set PROJECTED_IMPROVEMENTS \<and> score ?item < imp_score imp)"
    using that by (rule projectItem_not_eligible)
  show "let item = items before ! i;
            projected = items (generateProjectedAudit before) ! i
        in (\<forall>imp. (name item, imp) \<in> set PROJECTED_IMPROVEMENTS \<and> score item < imp_score imp \<longrightarrow>
                projected = item\<lparr>score := imp_score imp,
                                 status := (if imp_score imp \<ge> 70 then Pass else Partial),
                                 details := imp_note imp,
                                 recommendation := ''Included in generated package''\<rparr>
                \<and> projected \<noteq> item)
          \<and> (\<not> (\<exists>imp. (name item, imp) \<in> set PROJECTED_IMPROVEMENTS \<and> score item < imp_score imp) \<longrightarrow>
                projected = item)"
    unfolding Let_def proj using a b by blast
qed

theorem projection_replaces_exactly_the_eligible_findings_witness:
  "(0::nat) < length (items example_audit)
   \<and> (''robots.txt'', \<lparr>imp_score = 100, imp_note = ''AI crawler directives for 13 bots''\<rparr>)
         \<in> set PROJECTED_IMPROVEMENTS
   \<and> score (items example_audit ! 0) < 100
   \<and> items (generateProjectedAudit example_audit) ! 0 =
        \<lparr>name = ''robots.txt'', category = Critical, score = 100, maxScore = 100, status = Pass,
         details = ''AI crawler directives for 13 bots'',
         recommendation = ''Included in generated package''\<rparr>"
proof -
  let ?imp = "\<lparr>imp_score = 100, imp_note = ''AI crawler directives for 13 bots''\<rparr>"
  have len: "(0::nat) < length (items example_audit)"
    by (simp add: example_audit_def)
  have mem: "(''robots.txt'', ?imp) \<in> set PROJECTED_IMPROVEMENTS"
    by (simp add: PROJECTED_IMPROVEMENTS_def)
  have item: "items example_audit ! 0 =
      \<lparr>name = ''robots.txt'', category = Critical, score = 0, maxScore = 100, status = Fail,
       details = ''Test details'', recommendation = ''Test recommendation''\<rparr>"
    by (simp add: example_audit_def)
  have "items (generateProjectedAudit example_audit) ! 0 =
          (items example_audit ! 0)\<lparr>score := imp_score ?imp,
             status := (if imp_score ?imp \<ge> 70 then Pass else Partial),
             details := imp_note ?imp,
             recommendation := ''Included in generated package''\<rparr>"
  proof -
    from projection_replaces_exactly_the_eligible_findings [of example_audit] len
    have "\<forall>imp. (name (items example_audit ! 0), imp) \<in> set PROJECTED_IMPROVEMENTS
                 \<and> score (items example_audit ! 0) < imp_score imp \<longrightarrow>
            items (generateProjectedAudit example_audit) ! 0 =
              (items example_audit ! 0)\<lparr>score := imp_score imp,
                 status := (if imp_score imp \<ge> 70 then Pass else Partial),
                 details := imp_note imp,
                 recommendation := ''Included in generated package''\<rparr>
            \<and> items (generateProjectedAudit example_audit) ! 0 \<noteq> items example_audit ! 0"
      unfolding Let_def by blast
    from this [rule_format, of ?imp] mem item show ?thesis by simp
  qed
  with len mem item show ?thesis by simp
qed

text \<open>
  Claim C3. The finding at each position of the projected audit bears the name of the
  finding at that position of the input, and its score is at least the input's.
\<close>

theorem projected_score_never_lower:
  "length (items (generateProjectedAudit before)) = length (items before)
   \<and> (\<forall>i < length (items before).
         name (items (generateProjectedAudit before) ! i) = name (items before ! i)
         \<and> score (items before ! i) \<le> score (items (generateProjectedAudit before) ! i))"
proof (intro conjI allI impI)
  show "length (items (generateProjectedAudit before)) = length (items before)"
    by (simp add: items_generateProjectedAudit)
next
  fix i
  assume i: "i < length (items before)"
  then have at_i: "items (generateProjectedAudit before) ! i = projectItem (items before ! i)"
    by (simp add: items_generateProjectedAudit)
  show "name (items (generateProjectedAudit before) ! i) = name (items before ! i)"
    unfolding at_i by (rule name_projectItem)
  show "score (items before ! i) \<le> score (items (generateProjectedAudit before) ! i)"
    unfolding at_i by (rule score_projectItem)
qed

theorem projected_score_never_lower_witness:
  "(2::nat) < length (items example_audit)
   \<and> score (items example_audit ! 2) \<le> score (items (generateProjectedAudit example_audit) ! 2)
   \<and> score (items example_audit ! 2) = 40"
proof -
  have len: "(2::nat) < length (items example_audit)"
    by (simp add: example_audit_def)
  have "score (items example_audit ! 2) = 40"
    by (simp add: example_audit_def)
  with len projected_score_never_lower [of example_audit, THEN conjunct2, rule_format, OF len]
  show ?thesis by simp
qed

text \<open>
  Claim C9. Projecting a projected audit changes nothing; after one projection every
  finding that the table lists has reached its target.
\<close>

theorem projection_is_idempotent:
  "generateProjectedAudit (generateProjectedAudit a) = generateProjectedAudit a
   \<and> (\<forall>item \<in> set (items (generateProjectedAudit a)). \<forall>imp.
         (name item, imp) \<in> set PROJECTED_IMPROVEMENTS \<longrightarrow> imp_score imp \<le> score item)"
proof
  have "map projectItem (map projectItem xs) = map projectItem xs" for xs
    by (induction xs) (simp_all add: projectItem_idem)
  then show "generateProjectedAudit (generateProjectedAudit a) = generateProjectedAudit a"
    by (simp add: generateProjectedAudit_def Let_def del: map_map)
  show "\<forall>item \<in> set (items (generateProjectedAudit a)). \<forall>imp.
         (name item, imp) \<in> set PROJECTED_IMPROVEMENTS \<longrightarrow> imp_score imp \<le> score item"
    by (auto simp add: items_generateProjectedAudit name_projectItem
        improvement_lookup [symmetric] projectItem_reaches_target)
qed

theorem projection_is_idempotent_witness:
  "generateProjectedAudit (generateProjectedAudit example_audit) = generateProjectedAudit example_audit
   \<and> overallScore (generateProjectedAudit (generateProjectedAudit example_audit)) = 78"
proof -
  have "overallScore (generateProjectedAudit example_audit) = 78"
    by code_simp
  with projection_is_idempotent [of example_audit] show ?thesis by simp
qed

section \<open>The sitemap: claim C7\<close>

lemma score_auditSitemap_absent:
  "\<not> truthy c \<Longrightarrow> score (auditSitemap c n) = 0 \<and> status (auditSitemap c n) = Fail"
  by (simp add: auditSitemap_def)

lemma score_auditSitemap_present:
  "truthy c \<Longrightarrow> score (auditSitemap c n) =
     50 + (if count_loc (the c) > 0 then 25 else 0)
        + (if str_includes (the c) ''<lastmod>'' then 25 else 0)"
  unfolding auditSitemap_def
  apply (simp only: item_field)
  apply (simp add: Let_def)
  done

lemma status_auditSitemap_present:
  "truthy c \<Longrightarrow> status (auditSitemap c n) = (if count_loc (the c) > 0 \<or> str_includes (the c) ''<lastmod>'' then Pass else Partial)"
  unfolding auditSitemap_def
  apply (simp only: item_field)
  apply (simp add: Let_def)
  done

text \<open>
  Claim C7 as stated fails: the sitemap below has two entries and one last-modified
  date, so not every entry carries one and the specification's score is 75, but
  \<open>auditSitemap\<close> gives 100.
\<close>

theorem sitemap_lastmod_counterexample:
  "score (auditSitemap (Some two_entry_sitemap) 2) = 100
   \<and> spec_sitemap_score two_entry_sitemap = 75
   \<and> count_occurrences ''<loc>'' two_entry_sitemap = 2
   \<and> count_occurrences ''<lastmod>'' two_entry_sitemap = 1"
  by code_simp

text \<open>
  Claim C7, amended. For an absent sitemap (\<open>null\<close>, or the empty text, which
  \<open>!content\<close> treats alike) the score is 0 and the status \<open>fail\<close>. For every other text
  the score is 50, plus 25 if the text has an occurrence of \<open><loc>\<close>, plus 25 if it has
  an occurrence of \<open><lastmod>\<close> anywhere, and never above 100. A text with exactly one
  \<open><loc>\<close> and no \<open><lastmod>\<close> scores 75, and one with exactly one \<open><loc>\<close> and a
  \<open><lastmod>\<close> scores 100.
\<close>

theorem sitemap_score_by_presence_of_markers:
  "(\<not> truthy c \<longrightarrow> score (auditSitemap c n) = 0 \<and> status (auditSitemap c n) = Fail)
   \<and> (truthy c \<longrightarrow>
        score (auditSitemap c n) =
          50 + (if count_loc (the c) > 0 then 25 else 0)
             + (if str_includes (the c) ''<lastmod>'' then 25 else 0)
        \<and> score (auditSitemap c n) \<le> 100)
   \<and> (count_loc text = 1 \<and> \<not> str_includes text ''<lastmod>'' \<longrightarrow>
        score (auditSitemap (Some text) n) = 75)
   \<and> (count_loc text = 1 \<and> str_includes text ''<lastmod>'' \<longrightarrow>
        score (auditSitemap (Some text) n) = 100)"
proof (intro conjI impI)
  assume "\<not> truthy c"
  then show "score (auditSitemap c n) = 0" "status (auditSitemap c n) = Fail"
    by (simp_all add: score_auditSitemap_absent)
next
  assume "truthy c"
  then show "score (auditSitemap c n) =
          50 + (if count_loc (the c) > 0 then 25 else 0)
             + (if str_includes (the c) ''<lastmod>'' then 25 else 0)"
    by (rule score_auditSitemap_present)
  then show "score (auditSitemap c n) \<le> 100" by simp
next
  assume a: "count_loc text = 1 \<and> \<not> str_includes text ''<lastmod>''"
  then have "text \<noteq> []" by auto
  then have "truthy (Some text)" by (simp add: truthy_def)
  from score_auditSitemap_present [OF this] a
  show "score (auditSitemap (Some text) n) = 75" by simp
next
  assume a: "count_loc text = 1 \<and> str_includes text ''<lastmod>''"
  then have "text \<noteq> []" by auto
  then have "truthy (Some text)" by (simp add: truthy_def)
  from score_auditSitemap_present [OF this] a
  show "score (auditSitemap (Some text) n) = 100" by simp
qed

theorem sitemap_score_by_presence_of_markers_witness:
  "score (auditSitemap None 1) = 0 \<and> status (auditSitemap None 1) = Fail
   \<and> count_loc sitemap_without_lastmod = 1
   \<and> score (auditSitemap (Some sitemap_without_lastmod) 1) = 75
   \<and> count_loc sitemap_with_lastmod = 1
   \<and> score (auditSitemap (Some sitemap_with_lastmod) 1) = 100"
proof -
  have a: "\<not> truthy None" by (simp add: truthy_def)
  have b: "count_loc sitemap_without_lastmod = 1 \<and> \<not> str_includes sitemap_without_lastmod ''<lastmod>''"
    by code_simp
  have c: "count_loc sitemap_with_lastmod = 1 \<and> str_includes sitemap_with_lastmod ''<lastmod>''"
    by code_simp
  from a b c
    sitemap_score_by_presence_of_markers [of None 1 sitemap_without_lastmod]
    sitemap_score_by_presence_of_markers [of None 1 sitemap_with_lastmod]
  show ?thesis by blast
qed

section \<open>A crawl without pages: claim C8\<close>

lemma zero_pages_coverage:
  "pages c = [] \<Longrightarrow> score (auditServerRendering c) = 0 \<and> status (auditServerRendering c) = Fail"
  "pages c = [] \<Longrightarrow> score (auditMetaDescriptions c) = 0 \<and> status (auditMetaDescriptions c) = Fail"
  "pages c = [] \<Longrightarrow> score (auditHeadingHierarchy c) = 0 \<and> status (auditHeadingHierarchy c) = Fail"
  "pages c = [] \<Longrightarrow> score (auditOpenGraph c) = 0 \<and> status (auditOpenGraph c) = Fail"
  by (simp_all add: auditServerRendering_def auditMetaDescriptions_def auditHeadingHierarchy_def
      auditOpenGraph_def Let_def Math_round_0 coverage_status_def)

lemma zero_pages_not_applicable:
  "pages c = [] \<Longrightarrow> score (auditContentFreshness now pd c) = 0
      \<and> status (auditContentFreshness now pd c) = NotApplicable"
  "pages c = [] \<Longrightarrow> score (auditContentDepth c) = 0 \<and> status (auditContentDepth c) = NotApplicable"
  by (simp_all add: auditContentFreshness_def auditContentDepth_def Let_def)

text \<open>
  Claim C8 as stated fails: on a crawl without pages four of the six evaluators report
  the status \<open>fail\<close>, not \<open>not_applicable\<close>.
\<close>

theorem zero_pages_status_counterexample:
  "pages empty_crawl = []
   \<and> status (auditServerRendering empty_crawl) = Fail
   \<and> status (auditMetaDescriptions empty_crawl) = Fail
   \<and> status (auditHeadingHierarchy empty_crawl) = Fail
   \<and> status (auditOpenGraph empty_crawl) = Fail"
  by (simp add: zero_pages_coverage empty_crawl_def)

text \<open>
  Claim C8, amended. On a crawl without pages each of the six evaluators returns the
  score 0, its division being under the guard \<open>pages.length > 0\<close> (or behind an early
  return); content freshness and content structure and depth report \<open>not_applicable\<close>,
  server-side rendering, meta descriptions, heading hierarchy and Open Graph report
  \<open>fail\<close>.
\<close>

theorem zero_pages_score_zero:
  "pages crawlResult = [] \<longrightarrow>
     score (auditServerRendering crawlResult) = 0
     \<and> status (auditServerRendering crawlResult) = Fail
     \<and> score (auditMetaDescriptions crawlResult) = 0
     \<and> status (auditMetaDescriptions crawlResult) = Fail
     \<and> score (auditHeadingHierarchy crawlResult) = 0
     \<and> status (auditHeadingHierarchy crawlResult) = Fail
     \<and> score (auditOpenGraph crawlResult) = 0
     \<and> status (auditOpenGraph crawlResult) = Fail
     \<and> score (auditContentFreshness now parseDate crawlResult) = 0
     \<and> status (auditContentFreshness now parseDate crawlResult) = NotApplicable
     \<and> score (auditContentDepth crawlResult) = 0
     \<and> status (auditContentDepth crawlResult) = NotApplicable"
proof
  assume empty: "pages crawlResult = []"
  note fail = zero_pages_coverage [OF empty]
  note not_applicable = zero_pages_not_applicable [OF empty]
  from fail not_applicable
  show "score (auditServerRendering crawlResult) = 0
     \<and> status (auditServerRendering crawlResult) = Fail
     \<and> score (auditMetaDescriptions crawlResult) = 0
     \<and> status (auditMetaDescriptions crawlResult) = Fail
     \<and> score (auditHeadingHierarchy crawlResult) = 0
     \<and> status (auditHeadingHierarchy crawlResult) = Fail
     \<and> score (auditOpenGraph crawlResult) = 0
     \<and> status (auditOpenGraph crawlResult) = Fail
     \<and> score (auditContentFreshness now parseDate crawlResult) = 0
     \<and> status (auditContentFreshness now parseDate crawlResult) = NotApplicable
     \<and> score (auditContentDepth crawlResult) = 0
     \<and> status (auditContentDepth crawlResult) = NotApplicable"
    by simp
qed

theorem zero_pages_score_zero_witness:
  "pages empty_crawl = []
   \<and> score (auditServerRendering empty_crawl) = 0
   \<and> status (auditServerRendering empty_crawl) = Fail
   \<and> score (auditContentFreshness 0 (\<lambda>_. None) empty_crawl) = 0
   \<and> status (auditContentFreshness 0 (\<lambda>_. None) empty_crawl) = NotApplicable
   \<and> score (auditContentDepth empty_crawl) = 0
   \<and> status (auditContentDepth empty_crawl) = NotApplicable"
proof -
  have "pages empty_crawl = []" by (simp add: empty_crawl_def)
  with zero_pages_score_zero [of empty_crawl 0 "\<lambda>_. None"] show ?thesis by simp
qed

section \<open>The directive scan: claims C6 and C10\<close>

subsection \<open>Sets in insertion order\<close>






subsection \<open>The three kinds of line\<close>

lemma starts_with_ci_first:
  assumes "starts_with_ci (p # pat) line"
  shows "\<exists>c cs. line = c # cs \<and> toLowerCase_char c = p"
  using assms by (cases line) (simp_all add: starts_with_ci_def toLowerCase_def)

lemma disallow_is_no_agent: "disallowMatch line \<Longrightarrow> agentMatch line = None"
proof -
  assume d: "disallowMatch line"
  then obtain c cs where line: "line = c # cs" and c: "toLowerCase_char c = CHR ''d''"
    using starts_with_ci_first [of "CHR ''d''" "''isallow:''" line]
    by (auto simp add: disallowMatch_def)
  have "\<not> starts_with_ci ''user-agent:'' line"
  proof
    assume "starts_with_ci ''user-agent:'' line"
    from starts_with_ci_first [OF this] line c show False by simp
  qed
  then show ?thesis by (simp add: agentMatch_def)
qed



subsection \<open>What a full Disallow marks\<close>

lemma distinct_lower_aiCrawlers: "distinct (map toLowerCase aiCrawlers)"
  by code_simp

lemma length_aiCrawlers: "length aiCrawlers = 13"
  by (simp add: aiCrawlers_def)

lemma distinct_aiCrawlers: "distinct aiCrawlers"
  using distinct_lower_aiCrawlers by (simp add: distinct_map)

lemma set_wildcard_block:
  "set (foldl (\<lambda>acc bot. if \<not> P bot then acc @ [bot] else acc) blocked bots)
     = set blocked \<union> {bot \<in> set bots. \<not> P bot}"
  by (induction bots arbitrary: blocked) auto

lemma find_Some_holds: "find P xs = Some x \<Longrightarrow> x \<in> set xs \<and> P x"
  by (induction xs) (auto split: if_splits)

lemma find_None_holds: "find P xs = None \<Longrightarrow> x \<in> set xs \<Longrightarrow> \<not> P x"
  by (induction xs) (auto split: if_splits)

lemma set_find_append:
  assumes "inj_on f (set xs)"
  shows "set (case find (\<lambda>b. f b = v) xs of Some m \<Rightarrow> blocked @ [m] | None \<Rightarrow> blocked)
           = set blocked \<union> {b \<in> set xs. f b = v}"
proof (cases "find (\<lambda>b. f b = v) xs")
  case None
  from find_None_holds [OF this] have "{b \<in> set xs. f b = v} = {}"
    by blast
  with None show ?thesis by auto
next
  case (Some m)
  from find_Some_holds [OF this] have m: "m \<in> set xs" "f m = v"
    by blast+
  have "b = m" if "b \<in> set xs" "f b = v" for b
    using inj_onD [OF assms, of b m] that m by simp
  with m have "{b \<in> set xs. f b = v} = {m}"
    by blast
  with Some show ?thesis by simp
qed

lemma set_named_block:
  "set (case find (\<lambda>b. toLowerCase b = toLowerCase agent) aiCrawlers of
          Some matchedBot \<Rightarrow> blocked @ [matchedBot] | None \<Rightarrow> blocked)
     = set blocked \<union> {b \<in> set aiCrawlers. toLowerCase b = toLowerCase agent}"
proof (rule set_find_append)
  show "inj_on toLowerCase (set aiCrawlers)"
    using distinct_lower_aiCrawlers by (simp add: distinct_map)
qed

lemma marked_by_single:
  "marked_by robotsText [agent] =
     (if agent = ''*'' then {b \<in> set aiCrawlers. \<not> hasExplicitAllow robotsText b}
      else {b \<in> set aiCrawlers. toLowerCase b = toLowerCase agent})"
proof -
  define star :: string where "star = ''*''"
  have "{b \<in> set aiCrawlers.
        (star \<in> set [agent] \<and> \<not> hasExplicitAllow robotsText b)
        \<or> (\<exists>a \<in> set [agent]. a \<noteq> star \<and> toLowerCase b = toLowerCase a)} =
     (if agent = star then {b \<in> set aiCrawlers. \<not> hasExplicitAllow robotsText b}
      else {b \<in> set aiCrawlers. toLowerCase b = toLowerCase agent})"
    by auto
  then show ?thesis unfolding marked_by_def star_def .
qed

lemma set_block_agent:
  "set (block_agent robotsText blocked agent) = set blocked \<union> marked_by robotsText [agent]"
  unfolding marked_by_single block_agent_def
  by (simp only: set_wildcard_block set_named_block if_distrib [of set] cong: if_cong)
     (simp only: if_distrib [of "\<lambda>x. _ \<union> x"] cong: if_cong)

lemma marked_by_Cons:
  "marked_by robotsText (agent # agents) = marked_by robotsText [agent] \<union> marked_by robotsText agents"
proof -
  define star :: string where "star = ''*''"
  have "{b \<in> set aiCrawlers.
          (star \<in> set (agent # agents) \<and> \<not> hasExplicitAllow robotsText b)
          \<or> (\<exists>a \<in> set (agent # agents). a \<noteq> star \<and> toLowerCase b = toLowerCase a)} =
        {b \<in> set aiCrawlers.
          (star \<in> set [agent] \<and> \<not> hasExplicitAllow robotsText b)
          \<or> (\<exists>a \<in> set [agent]. a \<noteq> star \<and> toLowerCase b = toLowerCase a)}
        \<union> {b \<in> set aiCrawlers.
          (star \<in> set agents \<and> \<not> hasExplicitAllow robotsText b)
          \<or> (\<exists>a \<in> set agents. a \<noteq> star \<and> toLowerCase b = toLowerCase a)}"
    by auto
  then show ?thesis unfolding marked_by_def star_def .
qed

lemma marked_by_Nil: "marked_by robotsText [] = {}"
  by (simp add: marked_by_def)

lemma set_foldl_block_agent:
  "set (foldl (block_agent robotsText) blocked agents) = set blocked \<union> marked_by robotsText agents"
proof (induction agents arbitrary: blocked)
  case Nil
  show ?case by (simp add: marked_by_Nil)
next
  case (Cons agent agents)
  show ?case
    using Cons [of "block_agent robotsText blocked agent"]
    by (simp add: set_block_agent marked_by_Cons [of robotsText agent agents] Un_assoc)
qed

lemma marked_by_subset: "marked_by robotsText agents \<subseteq> set aiCrawlers"
  unfolding marked_by_def by (rule Collect_restrict)

subsection \<open>One step of the scan\<close>



lemma blocked_scan_step:
  "set (blockedBots (scan_step robotsText st line))
     = set (blockedBots st)
       \<union> (if disallowMatch line then marked_by robotsText (currentAgents st) else {})"
proof (cases "agentMatch line")
  case None
  then have step: "blockedBots (scan_step robotsText st line) =
      (if disallowMatch line \<and> length (currentAgents st) > 0
       then foldl (block_agent robotsText) (blockedBots st) (currentAgents st)
       else blockedBots st)"
    by (simp add: scan_step_def Let_def)
  show ?thesis
  proof (cases "disallowMatch line")
    case False
    with step show ?thesis by simp
  next
    case True
    show ?thesis
    proof (cases "currentAgents st")
      case Nil
      with step True show ?thesis by (simp add: marked_by_Nil)
    next
      case (Cons a as)
      then have "length (currentAgents st) > 0" by simp
      with step True show ?thesis by (simp only: set_foldl_block_agent if_True simp_thms)
    qed
  qed
next
  case (Some agent)
  then have "\<not> disallowMatch line" using disallow_is_no_agent [of line] by auto
  with Some show ?thesis by (simp add: scan_step_def)
qed


lemma blocked_scan_subset:
  "set (blockedBots (foldl (scan_step robotsText) st ls)) \<subseteq> set (blockedBots st) \<union> set aiCrawlers"
proof (induction ls arbitrary: st)
  case Nil
  show ?case by simp
next
  case (Cons l ls)
  have "set (blockedBots (scan_step robotsText st l)) \<subseteq> set (blockedBots st) \<union> set aiCrawlers"
    using marked_by_subset [of robotsText "currentAgents st"] by (auto simp add: blocked_scan_step)
  with Cons [of "scan_step robotsText st l"] show ?case by auto
qed

lemma blocked_crawlers_subset: "blocked_crawlers robotsText \<subseteq> set aiCrawlers"
  using blocked_scan_subset [of robotsText "\<lparr>currentAgents = [], blockedBots = []\<rparr>"]
  by (simp add: blocked_crawlers_def scan_lines_def)

lemma blockedCount_le: "blockedCount robotsText \<le> 13"
proof -
  have "card (blocked_crawlers robotsText) \<le> card (set aiCrawlers)"
    by (rule card_mono) (simp_all add: blocked_crawlers_subset)
  also have "\<dots> = 13" using distinct_card [OF distinct_aiCrawlers] by (simp add: length_aiCrawlers)
  finally show ?thesis by (simp add: blockedCount_def)
qed








subsection \<open>A Disallow behind another directive\<close>








end
